theory Spec2Isabelle
  imports Complex_Main
begin

section \<open>Python values, exceptions and floating point\<close>

text \<open>
  The agents of the pipeline are Python classes over pandas data frames. Python exceptions
  are values: every function that can raise returns a sum, \<open>Inl\<close> carrying the exception.
  \<open>str_exn\<close> is Python's \<open>str(e)\<close>.
\<close>

datatype exn = ZeroDivisionError | KeyError string | TypeError string | Exception string

fun str_exn :: "exn \<Rightarrow> string" where
  "str_exn ZeroDivisionError = ''division by zero''"
| "str_exn (KeyError k) = [CHR 0x27] @ k @ [CHR 0x27]"
| "str_exn (TypeError m) = m"
| "str_exn (Exception m) = m"

text \<open>
  A Python float is a binary64 number. Finite floats are modelled by the rational they
  denote, and every arithmetic operation of the source rounds its exact result to the
  nearest binary64 value, ties to even (\<open>fl\<close>). The exponent range is not bounded: all
  operations of the source that the model rounds produce values between 0 and 10000.
  \<open>bitlen n\<close> is the number of binary digits of \<open>n\<close>, \<open>ilog2 x\<close> the binary exponent of
  a positive rational, \<open>rhe\<close> rounds a rational to the nearest integer, ties to even.
\<close>

fun bitlen :: "nat \<Rightarrow> nat" where
  "bitlen n = (if n = 0 then 0 else Suc (bitlen (n div 2)))"

declare bitlen.simps [simp del]

definition ilog2 :: "rat \<Rightarrow> int" where
  "ilog2 x = (if 1 \<le> x then int (bitlen (nat \<lfloor>x\<rfloor>)) - 1
              else - int (bitlen (nat (\<lceil>1 / x\<rceil> - 1))))"

definition pow2 :: "int \<Rightarrow> rat" where
  "pow2 e = (if 0 \<le> e then 2 ^ nat e else 1 / 2 ^ nat (- e))"

definition rhe :: "rat \<Rightarrow> int" where
  "rhe y = (let f = \<lfloor>y\<rfloor>; r = y - of_int f
            in if r < 1 / 2 then f
               else if 1 / 2 < r then f + 1
               else if even f then f else f + 1)"

definition fl :: "rat \<Rightarrow> rat" where
  "fl x = (if x = 0 then 0
           else let e = ilog2 \<bar>x\<bar> - 52
                in sgn x * of_int (rhe (\<bar>x\<bar> / pow2 e)) * pow2 e)"

text \<open>A float that may be NaN; every comparison with NaN is false.\<close>

datatype pyfloat = NaN | Fin rat

text \<open>
  Python's \<open>a / b\<close> on two ints raises \<open>ZeroDivisionError\<close> when \<open>b\<close> is 0 and otherwise
  gives the correctly rounded quotient; \<open>x * y\<close> on floats rounds the exact product;
  \<open>round(x, 2)\<close> rounds the exact value of \<open>x\<close> to two decimals, ties to even, and
  converts that decimal back to the nearest float.
\<close>

definition py_truediv :: "nat \<Rightarrow> nat \<Rightarrow> exn + rat" where
  "py_truediv a b = (if b = 0 then Inl ZeroDivisionError else Inr (fl (of_nat a / of_nat b)))"

definition py_mul :: "rat \<Rightarrow> rat \<Rightarrow> rat" where
  "py_mul x y = fl (x * y)"

definition py_round2 :: "rat \<Rightarrow> rat" where
  "py_round2 x = fl (of_int (rhe (x * 100)) / 100)"

text \<open>
  \<open>round(x, 2)\<close> on a numpy float multiplies by 100, rounds to the nearest integer and
  divides by 100, each step rounded.
\<close>

definition np_round2 :: "rat \<Rightarrow> rat" where
  "np_round2 x = fl (of_int (rhe (fl (x * 100))) / 100)"

section \<open>Data frames\<close>

text \<open>
  A pandas column (\<open>Series\<close>) holds cells of one dtype: \<open>int64\<close> (no missing values),
  \<open>float64\<close> (a missing value is NaN) or \<open>object\<close> (strings, a missing value is None).
  A data frame is its ordered, named columns, its number of rows \<open>len(df)\<close> and the
  figure \<open>df.memory_usage(deep=True).sum() / 1024**2\<close>, which depends on pandas' memory
  layout and is carried as a field. \<open>wf_df\<close> says that every column has \<open>len(df)\<close> cells.
\<close>

datatype series = IntSeries "int list" | FloatSeries "rat option list" | ObjSeries "string option list"

record dataframe =
  df_columns :: "(string \<times> series) list"
  df_len :: nat
  df_memory_usage_mb :: rat

fun series_len :: "series \<Rightarrow> nat" where
  "series_len (IntSeries xs) = length xs"
| "series_len (FloatSeries xs) = length xs"
| "series_len (ObjSeries xs) = length xs"

definition wf_df :: "dataframe \<Rightarrow> bool" where
  "wf_df df = list_all (\<lambda>c. series_len (snd c) = df_len df) (df_columns df)"

text \<open>
  Values handed to \<open>str()\<close>, to an f-string or to the generation collaborator are kept
  structured: \<open>PFmt spec v\<close> is \<open>v\<close> under a format specification, \<open>PCat\<close> the
  concatenation of the fragments of an f-string. Their rendering as text is not modelled.
\<close>

datatype pyval = PStr string | PInt int | PFloat pyfloat | PFmt string pyval
  | PList "pyval list" | PDict "(pyval \<times> pyval) list" | PCat "pyval list"

fun dtype_str :: "series \<Rightarrow> string" where
  "dtype_str (IntSeries xs) = ''int64''"
| "dtype_str (FloatSeries xs) = ''float64''"
| "dtype_str (ObjSeries xs) = ''object''"

fun isnull_sum :: "series \<Rightarrow> nat" where
  "isnull_sum (IntSeries xs) = 0"
| "isnull_sum (FloatSeries xs) = length (filter (\<lambda>c. c = None) xs)"
| "isnull_sum (ObjSeries xs) = length (filter (\<lambda>c. c = None) xs)"

fun somes :: "'a option list \<Rightarrow> 'a list" where
  "somes [] = []"
| "somes (None # xs) = somes xs"
| "somes (Some x # xs) = x # somes xs"

fun dropna :: "series \<Rightarrow> pyval list" where
  "dropna (IntSeries xs) = map PInt xs"
| "dropna (FloatSeries xs) = map (\<lambda>r. PFloat (Fin r)) (somes xs)"
| "dropna (ObjSeries xs) = map PStr (somes xs)"

definition nunique :: "series \<Rightarrow> nat" where
  "nunique s = length (remdups (dropna s))"

definition is_number :: "series \<Rightarrow> bool" where
  "is_number s = (case s of ObjSeries xs \<Rightarrow> False | _ \<Rightarrow> True)"

definition is_object :: "series \<Rightarrow> bool" where
  "is_object s = (case s of ObjSeries xs \<Rightarrow> True | _ \<Rightarrow> False)"

fun numeric_cells :: "series \<Rightarrow> rat option list" where
  "numeric_cells (IntSeries xs) = map (\<lambda>i. Some (of_int i)) xs"
| "numeric_cells (FloatSeries xs) = xs"
| "numeric_cells (ObjSeries xs) = []"

fun object_cells :: "series \<Rightarrow> string option list" where
  "object_cells (ObjSeries xs) = xs"
| "object_cells s = []"

section \<open>The generation collaborator\<close>

text \<open>
  Every agent calls the language model through a dspy predictor. The collaborator is a
  function of the number of calls made so far and of the request (signature name and named
  inputs); it either raises or returns the named output fields. The world is the list of
  requests made so far, so that a call is an observable effect.
\<close>

type_synonym request = "string \<times> (string \<times> pyval) list"
type_synonym outputs = "string \<Rightarrow> string"
type_synonym lm = "nat \<Rightarrow> request \<Rightarrow> exn + outputs"
type_synonym world = "request list"

definition predict :: "lm \<Rightarrow> string \<Rightarrow> (string \<times> pyval) list \<Rightarrow> world \<Rightarrow> (exn + outputs) \<times> world" where
  "predict llm sig ins w = (llm (length w) (sig, ins), w @ [(sig, ins)])"

section \<open>Schema agent\<close>

definition MAX_SAMPLE_VALUES :: nat where
  "MAX_SAMPLE_VALUES = 5"

record column_profile =
  cp_column_name :: string
  cp_pandas_dtype :: string
  cp_null_count :: nat
  cp_null_percentage :: rat
  cp_unique_count :: nat
  cp_sample_values :: pyval
  cp_business_type :: string
  cp_confidence :: string
  cp_reasoning :: string
  cp_recommendation :: string

record schema_summary =
  total_columns :: nat
  total_rows :: nat
  memory_usage_mb :: rat

record schema_results =
  sr_columns :: "column_profile list"
  sr_summary :: schema_summary

text \<open>
  \<open>SchemaAgent._analyze_column\<close>: the counts, the sample values, one call of the
  collaborator with its fallback, and the returned dict, whose \<open>null_percentage\<close> is
  \<open>round((null_count / total_count) * 100, 2)\<close>. The division is evaluated when the dict
  is built, after the call.
\<close>

definition SchemaAgent_analyze_column ::
    "lm \<Rightarrow> dataframe \<Rightarrow> string \<times> series \<Rightarrow> world \<Rightarrow> (exn + column_profile) \<times> world" where
  "SchemaAgent_analyze_column llm df c w =
    (let col = fst c; s = snd c;
         pandas_dtype = dtype_str s;
         null_count = isnull_sum s;
         unique_count = nunique s;
         total_count = df_len df;
         non_null_values = dropna s;
         sample_values_str = (if length non_null_values > 0
                              then PList (take MAX_SAMPLE_VALUES non_null_values)
                              else PStr ''All null values'');
         (res, w') = predict llm ''SchemaInterpreter''
                       [(''column_name'', PStr col), (''pandas_dtype'', PStr pandas_dtype),
                        (''null_count'', PInt (int null_count)),
                        (''unique_count'', PInt (int unique_count)),
                        (''total_count'', PInt (int total_count)),
                        (''sample_values'', sample_values_str)] w;
         (business_type, confidence, reasoning, recommendation) =
            (case res of
               Inr interpretation \<Rightarrow>
                 (interpretation ''business_type'', interpretation ''confidence'',
                  interpretation ''reasoning'', interpretation ''recommendation'')
             | Inl e \<Rightarrow>
                 (''Unknown'', ''low'', ''Error in LLM interpretation: '' @ str_exn e,
                  ''Review manually''))
     in case py_truediv null_count total_count of
          Inl e \<Rightarrow> (Inl e, w')
        | Inr q \<Rightarrow>
            (Inr \<lparr>cp_column_name = col, cp_pandas_dtype = pandas_dtype,
                  cp_null_count = null_count,
                  cp_null_percentage = py_round2 (py_mul q 100),
                  cp_unique_count = unique_count, cp_sample_values = sample_values_str,
                  cp_business_type = business_type, cp_confidence = confidence,
                  cp_reasoning = reasoning, cp_recommendation = recommendation\<rparr>, w'))"

text \<open>The loop of \<open>SchemaAgent.analyze\<close> over \<open>df.columns\<close>; an exception leaves it.\<close>

fun SchemaAgent_columns ::
    "lm \<Rightarrow> dataframe \<Rightarrow> (string \<times> series) list \<Rightarrow> column_profile list \<Rightarrow> world
      \<Rightarrow> (exn + column_profile list) \<times> world" where
  "SchemaAgent_columns llm df [] acc w = (Inr acc, w)"
| "SchemaAgent_columns llm df (c # cs) acc w =
     (case SchemaAgent_analyze_column llm df c w of
        (Inl e, w') \<Rightarrow> (Inl e, w')
      | (Inr column_analysis, w') \<Rightarrow> SchemaAgent_columns llm df cs (acc @ [column_analysis]) w')"

definition SchemaAgent_analyze :: "lm \<Rightarrow> dataframe \<Rightarrow> world \<Rightarrow> (exn + schema_results) \<times> world" where
  "SchemaAgent_analyze llm df w =
    (let summary = \<lparr>total_columns = length (df_columns df), total_rows = df_len df,
                    memory_usage_mb = df_memory_usage_mb df\<rparr>
     in case SchemaAgent_columns llm df (df_columns df) [] w of
          (Inl e, w') \<Rightarrow> (Inl e, w')
        | (Inr cols, w') \<Rightarrow> (Inr \<lparr>sr_columns = cols, sr_summary = summary\<rparr>, w'))"

section \<open>Statistics of pandas\<close>

text \<open>
  \<open>Series.describe\<close>, \<open>quantile\<close> and \<open>median\<close> skip missing values and give NaN on
  a column without values. A quantile is taken by linear interpolation between the order
  statistics around position \<open>(n - 1) * q\<close>, the median is the middle value or the mean of
  the two middle values. Interpolation is exact here (no rounding of the intermediate
  results). Mean, standard deviation and skewness are floating-point reductions inside
  pandas; they are parameters of the profile agent.
\<close>

definition quantile_linear :: "rat list \<Rightarrow> rat \<Rightarrow> rat" where
  "quantile_linear s q =
    (let n = length s;
         h = of_nat (n - 1) * q;
         lo = nat \<lfloor>h\<rfloor>;
         hi = min (lo + 1) (n - 1);
         g = h - of_nat lo
     in s ! lo + g * (s ! hi - s ! lo))"

definition pd_quantile :: "rat option list \<Rightarrow> rat \<Rightarrow> pyfloat" where
  "pd_quantile cells q =
    (let vals = somes cells
     in if vals = [] then NaN else Fin (quantile_linear (sort vals) q))"

definition pd_median :: "rat option list \<Rightarrow> pyfloat" where
  "pd_median cells =
    (let s = sort (somes cells); n = length s
     in if n = 0 then NaN
        else if odd n then Fin (s ! (n div 2))
        else Fin ((s ! (n div 2 - 1) + s ! (n div 2)) / 2))"

definition pd_min :: "rat option list \<Rightarrow> pyfloat" where
  "pd_min cells = (case somes cells of [] \<Rightarrow> NaN | v # vs \<Rightarrow> Fin (fold min vs v))"

definition pd_max :: "rat option list \<Rightarrow> pyfloat" where
  "pd_max cells = (case somes cells of [] \<Rightarrow> NaN | v # vs \<Rightarrow> Fin (fold max vs v))"

record numeric_lib =
  lib_mean :: "rat option list \<Rightarrow> pyfloat"
  lib_std :: "rat option list \<Rightarrow> pyfloat"
  lib_skew :: "rat option list \<Rightarrow> pyfloat"

fun pf_lt :: "pyfloat \<Rightarrow> pyfloat \<Rightarrow> bool" where
  "pf_lt (Fin a) (Fin b) = (a < b)"
| "pf_lt x y = False"


fun pf_abs :: "pyfloat \<Rightarrow> pyfloat" where
  "pf_abs (Fin a) = Fin \<bar>a\<bar>"
| "pf_abs NaN = NaN"

fun pf_sub :: "pyfloat \<Rightarrow> pyfloat \<Rightarrow> pyfloat" where
  "pf_sub (Fin a) (Fin b) = Fin (a - b)"
| "pf_sub x y = NaN"

fun pf_add :: "pyfloat \<Rightarrow> pyfloat \<Rightarrow> pyfloat" where
  "pf_add (Fin a) (Fin b) = Fin (a + b)"
| "pf_add x y = NaN"

fun pf_mul :: "pyfloat \<Rightarrow> pyfloat \<Rightarrow> pyfloat" where
  "pf_mul (Fin a) (Fin b) = Fin (a * b)"
| "pf_mul x y = NaN"

text \<open>
  \<open>value_counts\<close>: the distinct values with their frequencies, most frequent first, ties
  in order of first appearance.
\<close>

definition value_counts :: "'a list \<Rightarrow> ('a \<times> nat) list" where
  "value_counts xs =
     sort_key (\<lambda>p. - int (snd p)) (map (\<lambda>v. (v, count_list xs v)) (rev (remdups (rev xs))))"

section \<open>Profile agent\<close>

record numeric_stats =
  ns_column_name :: string
  ns_mean :: pyfloat
  ns_median :: pyfloat
  ns_std :: pyfloat
  ns_min :: pyfloat
  ns_max :: pyfloat
  ns_q25 :: pyfloat
  ns_q75 :: pyfloat
  ns_skewness :: pyfloat
  ns_pattern_detected :: string
  ns_insight :: string
  ns_actionable_suggestion :: string

record categorical_stats =
  cs_column_name :: string
  cs_cardinality :: nat
  cs_top_value :: string
  cs_top_frequency :: nat
  cs_top_5 :: "(string \<times> nat) list"
  cs_pattern_detected :: string
  cs_insight :: string
  cs_actionable_suggestion :: string

record profile_results =
  numeric_analysis :: "numeric_stats list"
  categorical_analysis :: "categorical_stats list"

definition ProfileAgent_analyze_numeric_column ::
    "numeric_lib \<Rightarrow> lm \<Rightarrow> string \<times> series \<Rightarrow> world \<Rightarrow> numeric_stats \<times> world" where
  "ProfileAgent_analyze_numeric_column lib llm c w =
    (let col = fst c; cells = numeric_cells (snd c);
         mean_val = lib_mean lib cells;
         median_val = pd_median cells;
         std_val = lib_std lib cells;
         min_val = pd_min cells;
         max_val = pd_max cells;
         q25 = pd_quantile cells (1 / 4);
         q75 = pd_quantile cells (3 / 4);
         skewness = lib_skew lib cells;
         pattern = (if pf_lt (pf_abs skewness) (Fin (1 / 2)) then ''normal distribution''
                    else if pf_lt (Fin (1 / 2)) skewness then ''right skewed''
                    else ''left skewed'');
         stats_dict = PDict [(PStr ''mean'', PFloat mean_val), (PStr ''median'', PFloat median_val),
                             (PStr ''std'', PFloat std_val), (PStr ''min'', PFloat min_val),
                             (PStr ''max'', PFloat max_val), (PStr ''skewness'', PFloat skewness),
                             (PStr ''q25'', PFloat q25), (PStr ''q75'', PFloat q75)];
         (res, w') = predict llm ''StatisticalInsightGenerator''
                       [(''column_name'', PStr col), (''column_type'', PStr ''numeric''),
                        (''stats_dict'', stats_dict)] w;
         (insight, pattern_detected, suggestion) =
            (case res of
               Inr interpretation \<Rightarrow>
                 (interpretation ''insight'', interpretation ''pattern_detected'',
                  interpretation ''actionable_suggestion'')
             | Inl e \<Rightarrow>
                 (''Error generating insight: '' @ str_exn e, pattern,
                  ''Review statistics manually''))
     in (\<lparr>ns_column_name = col, ns_mean = mean_val, ns_median = median_val, ns_std = std_val,
          ns_min = min_val, ns_max = max_val, ns_q25 = q25, ns_q75 = q75,
          ns_skewness = skewness, ns_pattern_detected = pattern_detected,
          ns_insight = insight, ns_actionable_suggestion = suggestion\<rparr>, w'))"

definition ProfileAgent_analyze_categorical_column ::
    "lm \<Rightarrow> string \<times> series \<Rightarrow> world \<Rightarrow> categorical_stats \<times> world" where
  "ProfileAgent_analyze_categorical_column llm c w =
    (let col = fst c;
         vc = value_counts (somes (object_cells (snd c)));
         cardinality = length vc;
         total_count = length (somes (object_cells (snd c)));
         top_value = (case vc of [] \<Rightarrow> ''N/A'' | p # ps \<Rightarrow> fst p);
         top_frequency = (case vc of [] \<Rightarrow> 0 | p # ps \<Rightarrow> snd p);
         top_5 = take 5 vc;
         stats_dict = PDict [(PStr ''cardinality'', PInt (int cardinality)),
                             (PStr ''total_count'', PInt (int total_count)),
                             (PStr ''top_value'', PStr top_value),
                             (PStr ''top_frequency'', PInt (int top_frequency)),
                             (PStr ''top_5_values'',
                                PList (map (\<lambda>p. PList [PStr (fst p), PInt (int (snd p))]) top_5))];
         (res, w') = predict llm ''StatisticalInsightGenerator''
                       [(''column_name'', PStr col), (''column_type'', PStr ''categorical''),
                        (''stats_dict'', stats_dict)] w;
         (insight, pattern_detected, suggestion) =
            (case res of
               Inr interpretation \<Rightarrow>
                 (interpretation ''insight'', interpretation ''pattern_detected'',
                  interpretation ''actionable_suggestion'')
             | Inl e \<Rightarrow>
                 (''Error generating insight: '' @ str_exn e, ''unknown'',
                  ''Review distribution manually''))
     in (\<lparr>cs_column_name = col, cs_cardinality = cardinality, cs_top_value = top_value,
          cs_top_frequency = top_frequency, cs_top_5 = top_5,
          cs_pattern_detected = pattern_detected, cs_insight = insight,
          cs_actionable_suggestion = suggestion\<rparr>, w'))"

text \<open>A loop that runs one analysis per column and appends the results.\<close>

fun for_each :: "('c \<Rightarrow> world \<Rightarrow> 'r \<times> world) \<Rightarrow> 'c list \<Rightarrow> world \<Rightarrow> 'r list \<times> world" where
  "for_each f [] w = ([], w)"
| "for_each f (c # cs) w =
     (case f c w of (r, w') \<Rightarrow> (case for_each f cs w' of (rs, w'') \<Rightarrow> (r # rs, w'')))"

definition ProfileAgent_analyze ::
    "numeric_lib \<Rightarrow> lm \<Rightarrow> dataframe \<Rightarrow> world \<Rightarrow> (exn + profile_results) \<times> world" where
  "ProfileAgent_analyze lib llm df w =
    (let numeric_cols = filter (\<lambda>c. is_number (snd c)) (df_columns df);
         categorical_cols = filter (\<lambda>c. is_object (snd c)) (df_columns df);
         (na, w1) = for_each (ProfileAgent_analyze_numeric_column lib llm) numeric_cols w;
         (ca, w2) = for_each (ProfileAgent_analyze_categorical_column llm) categorical_cols w1
     in (Inr \<lparr>numeric_analysis = na, categorical_analysis = ca\<rparr>, w2))"

section \<open>Quality agent\<close>

record quality_issue =
  qi_type :: string
  qi_column :: string
  qi_severity :: string
  qi_description :: pyval
  qi_count :: nat
  qi_percentage :: "rat option"
  qi_bounds :: "(pyfloat \<times> pyfloat) option"
  qi_recommended_action :: string
  qi_code_snippet :: pyval
  qi_impact :: pyval

record quality_results =
  issues_found :: "quality_issue list"
  qr_summary :: "string \<rightharpoonup> nat"

definition sq :: string where
  "sq = [CHR 0x27]"

text \<open>
  A loop in which the body yields a list of issues or raises; the first exception leaves
  the loop.
\<close>

fun for_each_try ::
    "('c \<Rightarrow> world \<Rightarrow> (exn + 'r list) \<times> world) \<Rightarrow> 'c list \<Rightarrow> world \<Rightarrow> (exn + 'r list) \<times> world" where
  "for_each_try f [] w = (Inr [], w)"
| "for_each_try f (c # cs) w =
     (case f c w of
        (Inl e, w') \<Rightarrow> (Inl e, w')
      | (Inr rs, w') \<Rightarrow>
          (case for_each_try f cs w' of
             (Inl e, w'') \<Rightarrow> (Inl e, w'')
           | (Inr rs', w'') \<Rightarrow> (Inr (rs @ rs'), w'')))"

definition check_missing_column ::
    "lm \<Rightarrow> dataframe \<Rightarrow> string \<times> series \<Rightarrow> world \<Rightarrow> (exn + quality_issue list) \<times> world" where
  "check_missing_column llm df c w =
    (let col = fst c; null_count = isnull_sum (snd c)
     in if null_count > 0 then
          (case py_truediv null_count (df_len df) of
             Inl e \<Rightarrow> (Inl e, w)
           | Inr q \<Rightarrow>
              (let null_pct = py_mul q 100;
                   severity = (if null_pct > 50 then ''critical''
                               else if null_pct > 20 then ''warnings'' else ''info'');
                   issue_desc = PCat [PInt (int null_count), PStr '' missing values ('',
                                      PFmt ''.1f'' (PFloat (Fin null_pct)),
                                      PStr (''%) in column '' @ sq @ col @ sq)];
                   sample_data = PList (take 3 (dropna (snd c)));
                   (res, w') = predict llm ''QualityRecommender''
                                 [(''issue_type'', PStr ''missing_values''),
                                  (''column_name'', PStr col),
                                  (''issue_description'', issue_desc),
                                  (''sample_data'', sample_data)] w;
                   (action, code, impact) =
                      (case res of
                         Inr rec \<Rightarrow> (rec ''recommended_action'', PStr (rec ''python_code''),
                                     PStr (rec ''impact_description''))
                       | Inl e \<Rightarrow>
                           (''Impute with median/mode or drop rows'',
                            PStr (''df['' @ sq @ col @ sq @ ''].fillna(df['' @ sq @ col @ sq
                                  @ ''].median(), inplace=True)''),
                            PStr ''Fill missing values''))
               in (Inr [\<lparr>qi_type = ''missing_values'', qi_column = col,
                          qi_severity = severity, qi_description = issue_desc,
                          qi_count = null_count, qi_percentage = Some (py_round2 null_pct),
                          qi_bounds = None, qi_recommended_action = action,
                          qi_code_snippet = code, qi_impact = impact\<rparr>], w')))
        else (Inr [], w))"

definition QualityAgent_check_missing_values ::
    "lm \<Rightarrow> dataframe \<Rightarrow> world \<Rightarrow> (exn + quality_issue list) \<times> world" where
  "QualityAgent_check_missing_values llm df w =
     for_each_try (check_missing_column llm df) (df_columns df) w"

text \<open>
  \<open>df.duplicated()\<close> marks every row that equals an earlier row, missing values
  comparing equal; on a frame without rows or without columns it is empty.
\<close>

fun series_cells :: "series \<Rightarrow> pyval option list" where
  "series_cells (IntSeries xs) = map (\<lambda>i. Some (PInt i)) xs"
| "series_cells (FloatSeries xs) = map (map_option (\<lambda>r. PFloat (Fin r))) xs"
| "series_cells (ObjSeries xs) = map (map_option PStr) xs"

definition cell_at :: "series \<Rightarrow> nat \<Rightarrow> pyval option" where
  "cell_at s i = (let cs = series_cells s in if i < length cs then cs ! i else None)"

definition df_rows :: "dataframe \<Rightarrow> pyval option list list" where
  "df_rows df = map (\<lambda>i. map (\<lambda>c. cell_at (snd c) i) (df_columns df)) [0..<df_len df]"

fun duplicated_from :: "'a list \<Rightarrow> 'a list \<Rightarrow> bool list" where
  "duplicated_from seen [] = []"
| "duplicated_from seen (r # rs) = (r \<in> set seen) # duplicated_from (r # seen) rs"

definition df_duplicated :: "dataframe \<Rightarrow> bool list" where
  "df_duplicated df =
     (if df_len df = 0 \<or> df_columns df = [] then [] else duplicated_from [] (df_rows df))"

definition QualityAgent_check_duplicates ::
    "lm \<Rightarrow> dataframe \<Rightarrow> world \<Rightarrow> quality_issue list \<times> world" where
  "QualityAgent_check_duplicates llm df w =
    (let dup_count = length (filter id (df_duplicated df))
     in if dup_count > 0 then
          (let dup_pct = fl (fl (of_nat dup_count / of_nat (df_len df)) * 100);
               severity = (if dup_pct > 5 then ''warnings'' else ''info'');
               issue_desc = PCat [PInt (int dup_count), PStr '' duplicate rows ('',
                                  PFmt ''.1f'' (PFloat (Fin dup_pct)), PStr ''%)''];
               dup_rows = map fst (filter snd (zip (df_rows df) (df_duplicated df)));
               sample_data = PList (map (\<lambda>r. PList (map (\<lambda>c. case c of None \<Rightarrow> PFloat NaN
                                                               | Some v \<Rightarrow> v) r))
                                        (take 2 dup_rows));
               (res, w') = predict llm ''QualityRecommender''
                             [(''issue_type'', PStr ''duplicates''),
                              (''column_name'', PStr ''entire_row''),
                              (''issue_description'', issue_desc),
                              (''sample_data'', sample_data)] w;
               (action, code, impact) =
                  (case res of
                     Inr rec \<Rightarrow> (rec ''recommended_action'', PStr (rec ''python_code''),
                                 PStr (rec ''impact_description''))
                   | Inl e \<Rightarrow>
                       (''Remove duplicate rows'', PStr ''df.drop_duplicates(inplace=True)'',
                        PCat [PStr ''Remove '', PInt (int dup_count), PStr '' duplicate rows'']))
           in ([\<lparr>qi_type = ''duplicates'', qi_column = ''entire_row'',
                  qi_severity = severity, qi_description = issue_desc,
                  qi_count = dup_count, qi_percentage = Some (np_round2 dup_pct),
                  qi_bounds = None, qi_recommended_action = action,
                  qi_code_snippet = code, qi_impact = impact\<rparr>], w'))
        else ([], w))"

fun pf_round2 :: "pyfloat \<Rightarrow> pyfloat" where
  "pf_round2 (Fin a) = Fin (np_round2 a)"
| "pf_round2 NaN = NaN"

definition check_outliers_column ::
    "lm \<Rightarrow> dataframe \<Rightarrow> string \<times> series \<Rightarrow> world \<Rightarrow> (exn + quality_issue list) \<times> world" where
  "check_outliers_column llm df c w =
    (let col = fst c; cells = numeric_cells (snd c);
         Q1 = pd_quantile cells (1 / 4);
         Q3 = pd_quantile cells (3 / 4);
         IQR = pf_sub Q3 Q1;
         lower_bound = pf_sub Q1 (pf_mul (Fin (3 / 2)) IQR);
         upper_bound = pf_add Q3 (pf_mul (Fin (3 / 2)) IQR);
         outliers = filter (\<lambda>v. pf_lt (Fin v) lower_bound \<or> pf_lt upper_bound (Fin v))
                      (somes cells);
         outlier_count = length outliers
     in if outlier_count > 0 then
          (case py_truediv outlier_count (df_len df) of
             Inl e \<Rightarrow> (Inl e, w)
           | Inr q \<Rightarrow>
              (let outlier_pct = py_mul q 100;
                   severity = (if outlier_pct > 10 then ''warnings'' else ''info'');
                   issue_desc = PCat [PInt (int outlier_count), PStr '' outliers ('',
                                      PFmt ''.1f'' (PFloat (Fin outlier_pct)),
                                      PStr (''%) in '' @ sq @ col @ sq @ '' (outside [''),
                                      PFmt ''.2f'' (PFloat lower_bound), PStr '', '',
                                      PFmt ''.2f'' (PFloat upper_bound), PStr ''])''];
                   sample_data = PList (map (\<lambda>v. PFloat (Fin v)) (take 3 outliers));
                   (res, w') = predict llm ''QualityRecommender''
                                 [(''issue_type'', PStr ''outliers''),
                                  (''column_name'', PStr col),
                                  (''issue_description'', issue_desc),
                                  (''sample_data'', sample_data)] w;
                   (action, code, impact) =
                      (case res of
                         Inr rec \<Rightarrow> (rec ''recommended_action'', PStr (rec ''python_code''),
                                     PStr (rec ''impact_description''))
                       | Inl e \<Rightarrow>
                           (''Cap outliers or flag for investigation'',
                            PCat [PStr (''df['' @ sq @ col @ sq @ ''] = df['' @ sq @ col @ sq
                                        @ ''].clip(lower=''),
                                  PFmt ''.2f'' (PFloat lower_bound), PStr '', upper='',
                                  PFmt ''.2f'' (PFloat upper_bound), PStr '')''],
                            PStr ''Cap extreme values''))
               in (Inr [\<lparr>qi_type = ''outliers'', qi_column = col,
                          qi_severity = severity, qi_description = issue_desc,
                          qi_count = outlier_count, qi_percentage = Some (py_round2 outlier_pct),
                          qi_bounds = Some (pf_round2 lower_bound, pf_round2 upper_bound),
                          qi_recommended_action = action,
                          qi_code_snippet = code, qi_impact = impact\<rparr>], w')))
        else (Inr [], w))"

definition QualityAgent_check_outliers ::
    "lm \<Rightarrow> dataframe \<Rightarrow> world \<Rightarrow> (exn + quality_issue list) \<times> world" where
  "QualityAgent_check_outliers llm df w =
     for_each_try (check_outliers_column llm df)
       (filter (\<lambda>c. is_number (snd c)) (df_columns df)) w"

text \<open>
  \<open>str.lower\<close> and \<open>str.strip\<close> on the characters of the model, which are bytes: the
  letters A to Z are lowered, and the whitespace characters are stripped at both ends.
\<close>

definition lower_char :: "char \<Rightarrow> char" where
  "lower_char c = (let n = (of_char c :: nat)
                   in if 65 \<le> n \<and> n \<le> 90 then char_of (n + 32) else c)"

definition is_space :: "char \<Rightarrow> bool" where
  "is_space c = (let n = (of_char c :: nat)
                 in (9 \<le> n \<and> n \<le> 13) \<or> (28 \<le> n \<and> n \<le> 32))"

definition str_lower :: "string \<Rightarrow> string" where
  "str_lower s = map lower_char s"

definition str_strip :: "string \<Rightarrow> string" where
  "str_strip s = rev (dropWhile is_space (rev (dropWhile is_space s)))"

definition check_consistency_column ::
    "lm \<Rightarrow> string \<times> series \<Rightarrow> world \<Rightarrow> quality_issue list \<times> world" where
  "check_consistency_column llm c w =
    (let col = fst c; vals = somes (object_cells (snd c));
         vc = value_counts vals;
         unique_count = length vc
     in if unique_count > 1 \<and> unique_count < 100 then
          (let values_lower = map (\<lambda>v. str_strip (str_lower v)) vals;
               normalized_unique = length (remdups values_lower)
           in if normalized_unique < unique_count then
                (let diff = unique_count - normalized_unique;
                     issue_desc = PCat [PStr (sq @ col @ sq @ '' has ''), PInt (int diff),
                                        PStr '' inconsistent values (case/whitespace issues)''];
                     sample_data = PDict (map (\<lambda>p. (PStr (fst p), PInt (int (snd p)))) (take 5 vc));
                     (res, w') = predict llm ''QualityRecommender''
                                   [(''issue_type'', PStr ''inconsistent_categories''),
                                    (''column_name'', PStr col),
                                    (''issue_description'', issue_desc),
                                    (''sample_data'', sample_data)] w;
                     (action, code, impact) =
                        (case res of
                           Inr rec \<Rightarrow> (rec ''recommended_action'', PStr (rec ''python_code''),
                                       PStr (rec ''impact_description''))
                         | Inl e \<Rightarrow>
                             (''Standardize categorical values'',
                              PStr (''df['' @ sq @ col @ sq @ ''] = df['' @ sq @ col @ sq
                                    @ ''].str.lower().str.strip()''),
                              PCat [PStr ''Reduce '', PInt (int diff),
                                    PStr '' redundant categories'']))
                 in ([\<lparr>qi_type = ''inconsistent_categories'', qi_column = col,
                        qi_severity = ''info'', qi_description = issue_desc,
                        qi_count = diff, qi_percentage = None,
                        qi_bounds = None, qi_recommended_action = action,
                        qi_code_snippet = code, qi_impact = impact\<rparr>], w'))
              else ([], w))
        else ([], w))"

definition QualityAgent_check_categorical_consistency ::
    "lm \<Rightarrow> dataframe \<Rightarrow> world \<Rightarrow> quality_issue list \<times> world" where
  "QualityAgent_check_categorical_consistency llm df w =
    (case for_each (check_consistency_column llm)
            (filter (\<lambda>c. is_object (snd c)) (df_columns df)) w of
       (iss, w') \<Rightarrow> (concat iss, w'))"

text \<open>
  The summary counts of \<open>QualityAgent.analyze\<close>: \<open>summary['total_issues'] += 1\<close> raises
  \<open>KeyError\<close> on a missing key, \<open>summary[severity] = summary.get(severity, 0) + 1\<close> does
  not.
\<close>

definition summary_init :: "string \<rightharpoonup> nat" where
  "summary_init = [''total_issues'' \<mapsto> 0, ''critical'' \<mapsto> 0, ''warnings'' \<mapsto> 0, ''info'' \<mapsto> 0]"

definition dict_get :: "('k \<rightharpoonup> 'v) \<Rightarrow> 'k \<Rightarrow> 'v \<Rightarrow> 'v" where
  "dict_get m k d = (case m k of None \<Rightarrow> d | Some v \<Rightarrow> v)"

fun update_summary :: "quality_issue list \<Rightarrow> (string \<rightharpoonup> nat) \<Rightarrow> exn + (string \<rightharpoonup> nat)" where
  "update_summary [] m = Inr m"
| "update_summary (issue # rest) m =
     (case m ''total_issues'' of
        None \<Rightarrow> Inl (KeyError ''total_issues'')
      | Some n \<Rightarrow>
          (let m1 = m(''total_issues'' \<mapsto> n + 1);
               severity = qi_severity issue
           in update_summary rest (m1(severity \<mapsto> dict_get m1 severity 0 + 1))))"

definition QualityAgent_analyze :: "lm \<Rightarrow> dataframe \<Rightarrow> world \<Rightarrow> (exn + quality_results) \<times> world" where
  "QualityAgent_analyze llm df w =
    (case QualityAgent_check_missing_values llm df w of
       (Inl e, w1) \<Rightarrow> (Inl e, w1)
     | (Inr missing_issues, w1) \<Rightarrow>
        (case QualityAgent_check_duplicates llm df w1 of
           (duplicate_issues, w2) \<Rightarrow>
            (case QualityAgent_check_outliers llm df w2 of
               (Inl e, w3) \<Rightarrow> (Inl e, w3)
             | (Inr outlier_issues, w3) \<Rightarrow>
                (case QualityAgent_check_categorical_consistency llm df w3 of
                   (consistency_issues, w4) \<Rightarrow>
                    (let issues = missing_issues @ duplicate_issues @ outlier_issues
                                  @ consistency_issues
                     in case update_summary issues summary_init of
                          Inl e \<Rightarrow> (Inl e, w4)
                        | Inr summary \<Rightarrow>
                            (Inr \<lparr>issues_found = issues, qr_summary = summary\<rparr>, w4))))))"

section \<open>ML advisor agent\<close>

record use_case_rec =
  detected_use_case :: string
  target_variable :: string
  target_reasoning :: string
  suitability_score :: string
  alternative_use_case :: string

record feature_eng_rec =
  feature_plan :: string
  training_recommendations :: string
  mlflow_setup :: string

record ml_results =
  ml_use_case :: use_case_rec
  feature_engineering :: feature_eng_rec

definition nl :: string where
  "nl = [CHR 0x0A]"

fun starts_with :: "string \<Rightarrow> string \<Rightarrow> bool" where
  "starts_with [] s = True"
| "starts_with (p # ps) [] = False"
| "starts_with (p # ps) (c # cs) = (p = c \<and> starts_with ps cs)"

fun str_contains :: "string \<Rightarrow> string \<Rightarrow> bool" where
  "str_contains p [] = (p = [])"
| "str_contains p (c # cs) = (starts_with p (c # cs) \<or> str_contains p cs)"

fun join_with :: "pyval \<Rightarrow> pyval list \<Rightarrow> pyval list" where
  "join_with sep [] = []"
| "join_with sep [x] = [x]"
| "join_with sep (x # y # ys) = x # sep # join_with sep (y # ys)"

definition base_instructions :: string where
  "base_instructions =
     ''You are an expert data scientist. Generate a clear, step-by-step ML plan in MARKDOWN FORMAT:''
     @ nl @ ''''
     @ nl @ ''    ## 1. Data Preparation''
     @ nl @ ''    - Train/validation/test splits (ratios)''
     @ nl @ ''    - Preprocessing steps''
     @ nl @ ''    - Feature transformations''
     @ nl @ ''''
     @ nl @ ''    ## 2. Model Training''
     @ nl @ ''    - Baseline model (specify)''
     @ nl @ ''    - Advanced models (specify algorithms)''
     @ nl @ ''    - Training sequence''
     @ nl @ ''''
     @ nl @ ''    ## 3. Evaluation & Validation''
     @ nl @ ''    - Primary metrics (specify)''
     @ nl @ ''    - Cross-validation strategy''
     @ nl @ ''    - Holdout evaluation approach''
     @ nl @ ''''
     @ nl @ ''    ## 4. Hyperparameter Tuning''
     @ nl @ ''    - Key parameters to tune''
     @ nl @ ''    - Search strategy (grid/random/bayesian)''
     @ nl @ ''''
     @ nl @ ''    ## 5. MLflow Tracking''
     @ nl @ ''    - Experiment setup code''
     @ nl @ ''    - Parameters and metrics to log''
     @ nl @ ''    - Artifact storage plan''
     @ nl @ ''''
     @ nl @ ''    ## 6. Deployment & Monitoring''
     @ nl @ ''    - Model serialization format''
     @ nl @ ''    - Monitoring metrics''
     @ nl @ ''    - Retraining triggers''
     @ nl @ ''''
     @ nl @ ''    Use markdown headers (##), bullet points (-), keep responses concise and actionable.''"

definition MLAdvisorAgent_get_use_case_instructions :: "string \<Rightarrow> string" where
  "MLAdvisorAgent_get_use_case_instructions use_case =
    (let use_case_lower = str_lower use_case
     in if str_contains ''classification'' use_case_lower then
          base_instructions @ nl @ nl @ ''**Classification Focus:** Include class imbalance handling, precision/recall tradeoffs, ROC-AUC, confusion matrix analysis.''
        else if str_contains ''regression'' use_case_lower then
          base_instructions @ nl @ nl @ ''**Regression Focus:** Emphasize RMSE, MAE, R''
            @ [CHR 0xC2, CHR 0xB2] @ '', residual analysis, outlier detection and handling.''
        else if str_contains ''clustering'' use_case_lower then
          base_instructions @ nl @ nl @ ''**Clustering Focus:** Include silhouette score, elbow method, feature scaling requirements, cluster interpretation.''
        else base_instructions)"

definition MLAdvisorAgent_create_dataset_overview :: "schema_results \<Rightarrow> pyval" where
  "MLAdvisorAgent_create_dataset_overview schema_results =
    (let summary = sr_summary schema_results
     in PCat [PStr ''Dataset: '', PInt (int (total_rows summary)), PStr '' rows, '',
              PInt (int (total_columns summary)), PStr '' columns, '',
              PFmt ''.1f'' (PFloat (Fin (memory_usage_mb summary))), PStr ''MB''])"

definition MLAdvisorAgent_extract_key_columns :: "schema_results \<Rightarrow> profile_results \<Rightarrow> pyval" where
  "MLAdvisorAgent_extract_key_columns schema_results profile_results =
    (let columns = sr_columns schema_results;
         key_cols = map (\<lambda>col. PCat [PStr (cp_column_name col), PStr '' ('',
                                      PStr (cp_business_type col), PStr '', '',
                                      PFloat (Fin (cp_null_percentage col)), PStr ''% nulls, '',
                                      PInt (int (cp_unique_count col)), PStr '' unique)''])
                        (take 10 columns)
     in PCat (join_with (PStr ''; '') key_cols))"

definition MLAdvisorAgent_summarize_quality_issues :: "quality_results \<Rightarrow> pyval" where
  "MLAdvisorAgent_summarize_quality_issues quality_results =
    (let summary = qr_summary quality_results;
         total = dict_get summary ''total_issues'' 0;
         critical = dict_get summary ''critical'' 0;
         warnings = dict_get summary ''warnings'' 0
     in if total = 0 then PStr ''No quality issues detected''
        else PCat [PInt (int total), PStr '' issues found: '', PInt (int critical),
                   PStr '' critical, '', PInt (int warnings), PStr '' warnings''])"

definition MLAdvisorAgent_create_column_summary :: "schema_results \<Rightarrow> profile_results \<Rightarrow> pyval" where
  "MLAdvisorAgent_create_column_summary schema_results profile_results =
    (let columns = take 15 (sr_columns schema_results);
         summary_lines =
           map (\<lambda>col.
                  PCat ([PStr ''- '', PStr (cp_column_name col), PStr '': '',
                         PStr (cp_business_type col), PStr '', '', PStr (cp_pandas_dtype col)]
                        @ (if cp_unique_count col < 20
                           then [PStr '', '', PInt (int (cp_unique_count col)), PStr '' categories'']
                           else if cp_unique_count col = length columns
                           then [PStr '', unique identifier'']
                           else [])
                        @ (if cp_null_percentage col > 5
                           then [PStr '', '', PFloat (Fin (cp_null_percentage col)), PStr ''% nulls'']
                           else [])))
               columns
     in PCat (join_with (PStr nl) summary_lines))"

text \<open>
  \<open>MLAdvisorAgent.analyze\<close>: two calls of the collaborator, each in its own
  \<open>try\<close>, the second after the fallback values of the first are set.
\<close>

definition MLAdvisorAgent_analyze ::
    "lm \<Rightarrow> schema_results \<Rightarrow> profile_results \<Rightarrow> quality_results \<Rightarrow> world
      \<Rightarrow> (exn + ml_results) \<times> world" where
  "MLAdvisorAgent_analyze llm schema_results profile_results quality_results w =
    (let dataset_overview = MLAdvisorAgent_create_dataset_overview schema_results;
         key_columns = MLAdvisorAgent_extract_key_columns schema_results profile_results;
         quality_summary = MLAdvisorAgent_summarize_quality_issues quality_results;
         (res1, w1) = predict llm ''MLUseCaseDetector''
                        [(''dataset_overview'', dataset_overview), (''key_columns'', key_columns),
                         (''quality_issues'', quality_summary)] w;
         use_case =
            (case res1 of
               Inr ml_detection \<Rightarrow>
                 \<lparr>detected_use_case = ml_detection ''detected_use_case'',
                  target_variable = ml_detection ''target_variable'',
                  target_reasoning = ml_detection ''target_reasoning'',
                  suitability_score = ml_detection ''suitability_score'',
                  alternative_use_case = ml_detection ''alternative_use_case''\<rparr>
             | Inl e \<Rightarrow>
                 \<lparr>detected_use_case = ''Unable to detect'', target_variable = ''Unknown'',
                  target_reasoning = ''Error: '' @ str_exn e, suitability_score = ''0'',
                  alternative_use_case = ''N/A''\<rparr>);
         column_summary = MLAdvisorAgent_create_column_summary schema_results profile_results;
         instructions = MLAdvisorAgent_get_use_case_instructions (detected_use_case use_case);
         (res2, w2) = predict llm ''FeatureEngineeringPlanner''
                        [(''column_summary'', column_summary),
                         (''target_variable'', PStr (target_variable use_case)),
                         (''ml_use_case'', PStr (detected_use_case use_case)),
                         (''planning_instructions'', PStr instructions)] w1;
         feature_eng =
            (case res2 of
               Inr feature_planning \<Rightarrow>
                 \<lparr>feature_plan = feature_planning ''feature_plan'',
                  training_recommendations = feature_planning ''training_recommendations'',
                  mlflow_setup = feature_planning ''mlflow_setup''\<rparr>
             | Inl e \<Rightarrow>
                 \<lparr>feature_plan = ''Error generating plan: '' @ str_exn e,
                  training_recommendations = ''Unable to generate recommendations'',
                  mlflow_setup = ''Unable to generate MLflow recommendations''\<rparr>)
     in (Inr \<lparr>ml_use_case = use_case, feature_engineering = feature_eng\<rparr>, w2))"

section \<open>Deployment, business communication and product owner agents\<close>

text \<open>
  The results of these agents are dicts from field names to texts, kept as association
  lists in the order of the source; \<open>get d k dflt\<close> is \<open>d.get(k, dflt)\<close>.
\<close>

type_synonym dict = "(string \<times> string) list"

definition get :: "dict \<Rightarrow> string \<Rightarrow> string \<Rightarrow> string" where
  "get d k dflt = (case map_of d k of None \<Rightarrow> dflt | Some v \<Rightarrow> v)"

definition DeploymentAgent_format_ml_use_case :: "ml_results \<Rightarrow> string" where
  "DeploymentAgent_format_ml_use_case ml =
    (let use_case = ml_use_case ml
     in detected_use_case use_case @ '' | Target: '' @ target_variable use_case
        @ '' | Score: '' @ suitability_score use_case @ ''/100'')"

definition DeploymentAgent_format_data_summary :: "schema_results option \<Rightarrow> exn + pyval" where
  "DeploymentAgent_format_data_summary schema_results =
    (case schema_results of
       None \<Rightarrow> Inl (TypeError (sq @ ''NoneType'' @ sq @ '' object is not subscriptable''))
     | Some sr \<Rightarrow>
        (let summary = sr_summary sr
         in Inr (PCat [PInt (int (total_rows summary)), PStr '' rows, '',
                       PInt (int (total_columns summary)), PStr '' columns, '',
                       PFmt ''.1f'' (PFloat (Fin (memory_usage_mb summary))), PStr ''MB''])))"

definition deployment_fields :: "string list" where
  "deployment_fields =
     [''databricks_setup'', ''serving_strategy'', ''monitoring_plan'', ''data_strategy'',
      ''team_requirements'', ''implementation_roadmap'', ''risk_mitigation'',
      ''cost_estimation'', ''governance_framework'', ''success_metrics'', ''business_impact'',
      ''testing_framework'', ''operational_playbook'', ''enablement_plan'',
      ''future_enhancements'']"

definition DeploymentAgent_generate_error_response :: "string \<Rightarrow> dict" where
  "DeploymentAgent_generate_error_response error =
    (let error_msg = ''Error: '' @ error
     in (''databricks_setup'', error_msg)
        # map (\<lambda>k. (k, ''Unable to generate'')) (tl deployment_fields))"

definition DeploymentAgent_analyze ::
    "lm \<Rightarrow> schema_results option \<Rightarrow> ml_results \<Rightarrow> world \<Rightarrow> (exn + dict) \<times> world" where
  "DeploymentAgent_analyze llm schema_results ml w =
    (let ml_use_case_s = DeploymentAgent_format_ml_use_case ml;
         feature_plan_s = feature_plan (feature_engineering ml);
         training_plan = training_recommendations (feature_engineering ml)
     in case DeploymentAgent_format_data_summary schema_results of
          Inl e \<Rightarrow> (Inl e, w)
        | Inr data_summary \<Rightarrow>
           (case predict llm ''DatabricksDeploymentPlanner''
                   [(''ml_use_case'', PStr ml_use_case_s), (''feature_plan'', PStr feature_plan_s),
                    (''training_plan'', PStr training_plan), (''data_summary'', data_summary)] w of
              (Inr deployment_plan, w') \<Rightarrow>
                 (Inr (map (\<lambda>k. (k, deployment_plan k)) deployment_fields), w')
            | (Inl e, w') \<Rightarrow>
                 (Inr (DeploymentAgent_generate_error_response (str_exn e)), w')))"

definition BusinessCommunicationAgent_format_ml_use_case :: "ml_results \<Rightarrow> string" where
  "BusinessCommunicationAgent_format_ml_use_case ml =
    (let use_case = ml_use_case ml
     in detected_use_case use_case @ '' targeting '' @ target_variable use_case
        @ '' (Readiness: '' @ suitability_score use_case @ ''/100)'')"

definition BusinessCommunicationAgent_format_deployment_summary :: "dict \<Rightarrow> string" where
  "BusinessCommunicationAgent_format_deployment_summary deployment_strategy =
    (let team = get deployment_strategy ''team_requirements'' ''Team size not estimated'';
         timeline = get deployment_strategy ''implementation_roadmap'' ''Timeline not defined'';
         costs = get deployment_strategy ''cost_estimation'' ''Costs not estimated''
     in ''Team: '' @ take 100 team @ ''... | Timeline: '' @ take 100 timeline
        @ ''... | Costs: '' @ take 100 costs @ ''...'')"

definition communication_fields :: "string list" where
  "communication_fields =
     [''executive_summary'', ''risk_matrix'', ''timeline_visual'', ''budget_justification'',
      ''stakeholder_talking_points'']"

definition BusinessCommunicationAgent_generate_error_response :: "string \<Rightarrow> dict" where
  "BusinessCommunicationAgent_generate_error_response error =
    (let error_msg = ''Error: '' @ error
     in (''executive_summary'', error_msg)
        # map (\<lambda>k. (k, ''Unable to generate'')) (tl communication_fields))"

definition BusinessCommunicationAgent_analyze ::
    "lm \<Rightarrow> ml_results \<Rightarrow> dict \<Rightarrow> world \<Rightarrow> (exn + dict) \<times> world" where
  "BusinessCommunicationAgent_analyze llm ml deployment_strategy w =
    (let ml_use_case_s = BusinessCommunicationAgent_format_ml_use_case ml;
         deployment_summary =
           BusinessCommunicationAgent_format_deployment_summary deployment_strategy;
         technical_risks = get deployment_strategy ''risk_mitigation'' ''No risks identified'';
         success_metrics = get deployment_strategy ''success_metrics'' ''No metrics defined''
     in case predict llm ''BusinessCommunicationGenerator''
               [(''ml_use_case'', PStr ml_use_case_s),
                (''deployment_summary'', PStr deployment_summary),
                (''technical_risks'', PStr technical_risks),
                (''success_metrics'', PStr success_metrics)] w of
          (Inr communication_materials, w') \<Rightarrow>
             (Inr (map (\<lambda>k. (k, communication_materials k)) communication_fields), w')
        | (Inl e, w') \<Rightarrow>
             (Inr (BusinessCommunicationAgent_generate_error_response (str_exn e)), w'))"

record prd_result =
  prd_document :: string
  prd_status :: string

definition POAgent_format_ml_use_case :: "ml_results \<Rightarrow> string" where
  "POAgent_format_ml_use_case ml =
    (let use_case = ml_use_case ml
     in nl @ ''**Use Case**: '' @ detected_use_case use_case
        @ nl @ ''**Target Variable**: '' @ target_variable use_case
        @ nl @ ''**ML Readiness**: '' @ suitability_score use_case @ ''/100''
        @ nl @ ''**Reasoning**: '' @ target_reasoning use_case
        @ nl @ ''**Alternative**: '' @ alternative_use_case use_case @ nl)"

definition POAgent_format_feature_engineering :: "ml_results \<Rightarrow> string" where
  "POAgent_format_feature_engineering ml =
    (let feature_eng = feature_engineering ml
     in nl @ ''**Feature Plan**:'' @ nl @ take 500 (feature_plan feature_eng) @ ''...''
        @ nl @ nl @ ''**Training Strategy**:'' @ nl @ training_recommendations feature_eng
        @ nl @ nl @ ''**MLflow Setup**:'' @ nl @ mlflow_setup feature_eng @ nl)"

definition POAgent_format_deployment_summary :: "dict \<Rightarrow> string" where
  "POAgent_format_deployment_summary deployment_strategy =
     nl @ ''**Team Requirements**: '' @ take 300 (get deployment_strategy ''team_requirements'' ''N/A'') @ ''...''
     @ nl @ ''**Timeline**: '' @ take 300 (get deployment_strategy ''implementation_roadmap'' ''N/A'') @ ''...''
     @ nl @ ''**Costs**: '' @ take 300 (get deployment_strategy ''cost_estimation'' ''N/A'') @ ''...''
     @ nl @ ''**Infrastructure**: '' @ take 300 (get deployment_strategy ''databricks_setup'' ''N/A'') @ ''...''
     @ nl @ ''**Monitoring**: '' @ take 200 (get deployment_strategy ''monitoring_plan'' ''N/A'') @ ''...''
     @ nl"

definition POAgent_format_business_summary :: "dict \<Rightarrow> string" where
  "POAgent_format_business_summary business_communication =
     nl @ ''**Executive Summary**: '' @ take 400 (get business_communication ''executive_summary'' ''N/A'') @ ''...''
     @ nl @ ''**ROI Justification**: '' @ take 300 (get business_communication ''budget_justification'' ''N/A'') @ ''...''
     @ nl @ ''**Success Metrics**: '' @ take 200 (get business_communication ''stakeholder_talking_points'' ''N/A'') @ ''...''
     @ nl"

definition POAgent_format_quality_issues :: "quality_results \<Rightarrow> pyval" where
  "POAgent_format_quality_issues quality_results =
    (let summary = qr_summary quality_results
     in PCat [PStr (nl @ ''**Total Issues**: ''), PInt (int (dict_get summary ''total_issues'' 0)),
              PStr (nl @ ''**Critical**: ''), PInt (int (dict_get summary ''critical'' 0)),
              PStr (nl @ ''**Warnings**: ''), PInt (int (dict_get summary ''warnings'' 0)),
              PStr (nl @ ''**Info**: ''), PInt (int (dict_get summary ''info'' 0)), PStr nl])"

definition POAgent_generate_prd ::
    "lm \<Rightarrow> schema_results \<Rightarrow> quality_results \<Rightarrow> ml_results \<Rightarrow> dict \<Rightarrow> dict \<Rightarrow> world
      \<Rightarrow> (exn + prd_result) \<times> world" where
  "POAgent_generate_prd llm schema_results quality_results ml deployment_strategy
      business_communication w =
    (let ml_use_case_s = POAgent_format_ml_use_case ml;
         feature_engineering_s = POAgent_format_feature_engineering ml;
         deployment_summary = POAgent_format_deployment_summary deployment_strategy;
         business_summary = POAgent_format_business_summary business_communication;
         quality_issues = POAgent_format_quality_issues quality_results
     in case predict llm ''PRDGenerator''
               [(''ml_use_case'', PStr ml_use_case_s),
                (''feature_engineering'', PStr feature_engineering_s),
                (''deployment_strategy'', PStr deployment_summary),
                (''business_summary'', PStr business_summary),
                (''quality_issues'', quality_issues)] w of
          (Inr prd_output, w') \<Rightarrow>
             (Inr \<lparr>prd_document = prd_output ''prd_document'', prd_status = ''success''\<rparr>, w')
        | (Inl e, w') \<Rightarrow>
             (Inr \<lparr>prd_document = ''# PRD Generation Failed'' @ nl @ nl @ ''Error: '' @ str_exn e,
                   prd_status = ''error''\<rparr>, w'))"

section \<open>Supervisor\<close>

text \<open>
  The supervisor holds its seven agents as attributes and calls their \<open>analyze\<close> methods.
  \<open>SupervisorAgent_init\<close> creates the agents of the source, all on one collaborator.
\<close>

record supervisor =
  schema_agent :: "dataframe \<Rightarrow> world \<Rightarrow> (exn + schema_results) \<times> world"
  profile_agent :: "dataframe \<Rightarrow> world \<Rightarrow> (exn + profile_results) \<times> world"
  quality_agent :: "dataframe \<Rightarrow> world \<Rightarrow> (exn + quality_results) \<times> world"
  ml_advisor_agent :: "schema_results \<Rightarrow> profile_results \<Rightarrow> quality_results \<Rightarrow> world
                        \<Rightarrow> (exn + ml_results) \<times> world"
  deployment_agent :: "schema_results option \<Rightarrow> ml_results \<Rightarrow> world \<Rightarrow> (exn + dict) \<times> world"
  business_communication_agent :: "ml_results \<Rightarrow> dict \<Rightarrow> world \<Rightarrow> (exn + dict) \<times> world"
  po_agent :: "schema_results \<Rightarrow> quality_results \<Rightarrow> ml_results \<Rightarrow> dict \<Rightarrow> dict \<Rightarrow> world
                \<Rightarrow> (exn + prd_result) \<times> world"

definition SupervisorAgent_init :: "numeric_lib \<Rightarrow> lm \<Rightarrow> supervisor" where
  "SupervisorAgent_init lib llm =
     \<lparr>schema_agent = SchemaAgent_analyze llm,
      profile_agent = ProfileAgent_analyze lib llm,
      quality_agent = QualityAgent_analyze llm,
      ml_advisor_agent = MLAdvisorAgent_analyze llm,
      deployment_agent = DeploymentAgent_analyze llm,
      business_communication_agent = BusinessCommunicationAgent_analyze llm,
      po_agent = POAgent_generate_prd llm\<rparr>"

text \<open>
  The results dict of \<open>analyze_dataset\<close>. A result that has not been stored is None. The
  gates test the truth value of a stored result: the results of the schema, profile,
  quality and ML advisor agents are dicts with fixed keys, true when present; a deployment
  or communication dict is true when it is present and not empty.
\<close>

record pipeline_result =
  status :: string
  agents_completed :: "string list"
  schema_analysis :: "schema_results option"
  profile_analysis :: "profile_results option"
  quality_analysis :: "quality_results option"
  ml_recommendations :: "ml_results option"
  deployment_strategy :: "dict option"
  business_communication :: "dict option"
  errors :: "string list"

definition truthy :: "'a option \<Rightarrow> bool" where
  "truthy r = (case r of None \<Rightarrow> False | Some v \<Rightarrow> True)"

definition truthy_dict :: "dict option \<Rightarrow> bool" where
  "truthy_dict r = (case r of None \<Rightarrow> False | Some d \<Rightarrow> d \<noteq> [])"

definition initial_results :: pipeline_result where
  "initial_results =
     \<lparr>status = ''in_progress'', agents_completed = [], schema_analysis = None,
      profile_analysis = None, quality_analysis = None, ml_recommendations = None,
      deployment_strategy = None, business_communication = None, errors = []\<rparr>"

definition step_schema :: "supervisor \<Rightarrow> dataframe \<Rightarrow> pipeline_result \<times> world \<Rightarrow> pipeline_result \<times> world" where
  "step_schema self df rw =
    (case rw of (results, w) \<Rightarrow>
      (case schema_agent self df w of
         (Inr schema_results, w') \<Rightarrow>
            (results\<lparr>schema_analysis := Some schema_results,
                     agents_completed := agents_completed results @ [''schema_agent'']\<rparr>, w')
       | (Inl e, w') \<Rightarrow>
            (results\<lparr>errors := errors results @ [''Schema Agent failed: '' @ str_exn e]\<rparr>, w')))"

definition step_profile :: "supervisor \<Rightarrow> dataframe \<Rightarrow> pipeline_result \<times> world \<Rightarrow> pipeline_result \<times> world" where
  "step_profile self df rw =
    (case rw of (results, w) \<Rightarrow>
      (case profile_agent self df w of
         (Inr profile_results, w') \<Rightarrow>
            (results\<lparr>profile_analysis := Some profile_results,
                     agents_completed := agents_completed results @ [''profile_agent'']\<rparr>, w')
       | (Inl e, w') \<Rightarrow>
            (results\<lparr>errors := errors results @ [''Profile Agent failed: '' @ str_exn e]\<rparr>, w')))"

definition step_quality :: "supervisor \<Rightarrow> dataframe \<Rightarrow> pipeline_result \<times> world \<Rightarrow> pipeline_result \<times> world" where
  "step_quality self df rw =
    (case rw of (results, w) \<Rightarrow>
      (case quality_agent self df w of
         (Inr quality_results, w') \<Rightarrow>
            (results\<lparr>quality_analysis := Some quality_results,
                     agents_completed := agents_completed results @ [''quality_agent'']\<rparr>, w')
       | (Inl e, w') \<Rightarrow>
            (results\<lparr>errors := errors results @ [''Quality Agent failed: '' @ str_exn e]\<rparr>, w')))"

definition step_ml_advisor :: "supervisor \<Rightarrow> pipeline_result \<times> world \<Rightarrow> pipeline_result \<times> world" where
  "step_ml_advisor self rw =
    (case rw of (results, w) \<Rightarrow>
      (if truthy (schema_analysis results) \<and> truthy (profile_analysis results)
          \<and> truthy (quality_analysis results) then
         (case ml_advisor_agent self (the (schema_analysis results))
                 (the (profile_analysis results)) (the (quality_analysis results)) w of
            (Inr ml, w') \<Rightarrow>
               (results\<lparr>ml_recommendations := Some ml,
                        agents_completed := agents_completed results @ [''ml_advisor_agent'']\<rparr>, w')
          | (Inl e, w') \<Rightarrow>
               (results\<lparr>errors := errors results @ [''ML Advisor Agent failed: '' @ str_exn e]\<rparr>, w'))
       else (results, w)))"

definition step_deployment :: "supervisor \<Rightarrow> pipeline_result \<times> world \<Rightarrow> pipeline_result \<times> world" where
  "step_deployment self rw =
    (case rw of (results, w) \<Rightarrow>
      (if truthy (ml_recommendations results) then
         (case deployment_agent self (schema_analysis results)
                 (the (ml_recommendations results)) w of
            (Inr deployment, w') \<Rightarrow>
               (results\<lparr>deployment_strategy := Some deployment,
                        agents_completed := agents_completed results @ [''deployment_agent'']\<rparr>, w')
          | (Inl e, w') \<Rightarrow>
               (results\<lparr>errors := errors results @ [''Deployment Agent failed: '' @ str_exn e]\<rparr>, w'))
       else (results, w)))"

definition step_business_communication ::
    "supervisor \<Rightarrow> pipeline_result \<times> world \<Rightarrow> pipeline_result \<times> world" where
  "step_business_communication self rw =
    (case rw of (results, w) \<Rightarrow>
      (if truthy (ml_recommendations results) \<and> truthy_dict (deployment_strategy results) then
         (case business_communication_agent self (the (ml_recommendations results))
                 (the (deployment_strategy results)) w of
            (Inr business_materials, w') \<Rightarrow>
               (results\<lparr>business_communication := Some business_materials,
                        agents_completed :=
                          agents_completed results @ [''business_communication_agent'']\<rparr>, w')
          | (Inl e, w') \<Rightarrow>
               (results\<lparr>errors := errors results
                           @ [''Business Communication Agent failed: '' @ str_exn e]\<rparr>, w'))
       else (results, w)))"

definition update_status :: "pipeline_result \<Rightarrow> pipeline_result" where
  "update_status results =
     (if length (errors results) = 0 then results\<lparr>status := ''completed''\<rparr>
      else results\<lparr>status := ''partial_failure''\<rparr>)"

definition analyze_dataset :: "supervisor \<Rightarrow> dataframe \<Rightarrow> world \<Rightarrow> pipeline_result \<times> world" where
  "analyze_dataset self df w =
    (case step_business_communication self
            (step_deployment self
              (step_ml_advisor self
                (step_quality self df
                  (step_profile self df
                    (step_schema self df (initial_results, w)))))) of
       (results, w') \<Rightarrow> (update_status results, w'))"

text \<open>
  \<open>SupervisorAgent.generate_prd\<close>: the gate on the five cached results, then the product
  owner agent inside \<open>try\<close>.
\<close>

definition insufficient_data :: prd_result where
  "insufficient_data =
     \<lparr>prd_document = ''# Error'' @ nl @ nl
        @ ''Insufficient data to generate PRD. Please complete all analysis steps first.'',
      prd_status = ''error''\<rparr>"

definition generate_prd :: "supervisor \<Rightarrow> pipeline_result \<Rightarrow> world \<Rightarrow> prd_result \<times> world" where
  "generate_prd self results w =
    (if \<not> (truthy (schema_analysis results) \<and> truthy (quality_analysis results)
            \<and> truthy (ml_recommendations results) \<and> truthy_dict (deployment_strategy results)
            \<and> truthy_dict (business_communication results))
     then (insufficient_data, w)
     else (case po_agent self (the (schema_analysis results)) (the (quality_analysis results))
                  (the (ml_recommendations results)) (the (deployment_strategy results))
                  (the (business_communication results)) w of
             (Inr prd, w') \<Rightarrow> (prd, w')
           | (Inl e, w') \<Rightarrow>
               (\<lparr>prd_document = ''# Error'' @ nl @ nl @ ''PRD generation failed: '' @ str_exn e,
                 prd_status = ''error''\<rparr>, w')))"

section \<open>Properties named by the specification\<close>

text \<open>The three severities that the summary of the quality agent counts.\<close>

definition known_severity :: "quality_issue \<Rightarrow> bool" where
  "known_severity issue = (qi_severity issue = ''critical'' \<or> qi_severity issue = ''warnings''
                            \<or> qi_severity issue = ''info'')"

text \<open>
  The specification's formula for the percentage of missing values,
  \<open>round(100 * null_count / total_rows, 2)\<close>, evaluated as Python does: an exact
  product of ints, a rounded quotient, and \<open>round\<close>.
\<close>

definition spec_null_percentage :: "nat \<Rightarrow> nat \<Rightarrow> rat" where
  "spec_null_percentage n t = py_round2 (fl (100 * of_nat n / of_nat t))"

text \<open>
  What holds of the profile \<open>cp\<close> that the schema agent builds for column \<open>c\<close>: the
  count of missing values, the percentage as the source computes it, its bounds, and its
  distance from the formula of the specification: both are floats nearest to a number of
  hundredths, and the two numbers of hundredths differ by one at most.
\<close>

definition null_percentage_ok :: "dataframe \<Rightarrow> string \<times> series \<Rightarrow> column_profile \<Rightarrow> bool" where
  "null_percentage_ok df c cp =
     (cp_null_count cp = isnull_sum (snd c)
      \<and> cp_null_percentage cp
          = py_round2 (py_mul (fl (of_nat (cp_null_count cp) / of_nat (df_len df))) 100)
      \<and> 0 \<le> cp_null_percentage cp \<and> cp_null_percentage cp \<le> 100
      \<and> (\<exists>k j. cp_null_percentage cp = fl (of_int k / 100)
             \<and> spec_null_percentage (cp_null_count cp) (df_len df) = fl (of_int j / 100)
             \<and> \<bar>k - j\<bar> \<le> 1))"


text \<open>
  The records that the agents build when a call of the collaborator fails, as the
  \<open>except\<close> branches of the source write them: the profile of a column by the schema
  agent, the statistics of a numeric and of a categorical column by the profile agent, and
  an issue of each of the four checks of the quality agent.
\<close>

definition schema_fallback :: "string \<times> series \<Rightarrow> column_profile \<Rightarrow> bool" where
  "schema_fallback c cp =
     (cp_column_name cp = fst c \<and> cp_business_type cp = ''Unknown'' \<and> cp_confidence cp = ''low''
      \<and> starts_with ''Error in LLM interpretation: '' (cp_reasoning cp)
      \<and> cp_recommendation cp = ''Review manually'')"

definition numeric_fallback :: "string \<times> series \<Rightarrow> numeric_stats \<Rightarrow> bool" where
  "numeric_fallback c st =
     (ns_column_name st = fst c \<and> starts_with ''Error generating insight: '' (ns_insight st)
      \<and> (ns_pattern_detected st = ''normal distribution''
           \<or> ns_pattern_detected st = ''right skewed'' \<or> ns_pattern_detected st = ''left skewed'')
      \<and> ns_actionable_suggestion st = ''Review statistics manually'')"

definition categorical_fallback :: "string \<times> series \<Rightarrow> categorical_stats \<Rightarrow> bool" where
  "categorical_fallback c st =
     (cs_column_name st = fst c \<and> starts_with ''Error generating insight: '' (cs_insight st)
      \<and> cs_pattern_detected st = ''unknown''
      \<and> cs_actionable_suggestion st = ''Review distribution manually'')"

definition fallback_issue :: "quality_issue \<Rightarrow> bool" where
  "fallback_issue issue =
     ((qi_type issue = ''missing_values''
         \<and> qi_recommended_action issue = ''Impute with median/mode or drop rows''
         \<and> qi_impact issue = PStr ''Fill missing values'')
      \<or> (qi_type issue = ''duplicates''
         \<and> qi_recommended_action issue = ''Remove duplicate rows''
         \<and> qi_code_snippet issue = PStr ''df.drop_duplicates(inplace=True)'')
      \<or> (qi_type issue = ''outliers''
         \<and> qi_recommended_action issue = ''Cap outliers or flag for investigation''
         \<and> qi_impact issue = PStr ''Cap extreme values'')
      \<or> (qi_type issue = ''inconsistent_categories''
         \<and> qi_recommended_action issue = ''Standardize categorical values''))"

section \<open>Concrete inputs\<close>

text \<open>
  A collaborator that fails on every call, statistics routines that return NaN, and small
  data frames: a file with a header line and no rows, a frame of one row, a frame of 160
  rows whose column has 23 missing values, and a frame whose numeric column is all
  missing.
\<close>

definition always_fail :: lm where
  "always_fail i req = Inl (Exception ''generation failed'')"

definition lib_nan :: numeric_lib where
  "lib_nan = \<lparr>lib_mean = (\<lambda>cells. NaN), lib_std = (\<lambda>cells. NaN), lib_skew = (\<lambda>cells. NaN)\<rparr>"

definition df_header_only :: dataframe where
  "df_header_only =
     \<lparr>df_columns = [(''amount'', FloatSeries [])], df_len = 0, df_memory_usage_mb = 0\<rparr>"

definition df_one_row :: dataframe where
  "df_one_row =
     \<lparr>df_columns = [(''amount'', FloatSeries [Some 3]), (''category'', ObjSeries [Some ''A''])],
      df_len = 1, df_memory_usage_mb = 0\<rparr>"

definition col_23_of_160 :: series where
  "col_23_of_160 = FloatSeries (replicate 23 None @ replicate 137 (Some 1))"

definition df_23_of_160 :: dataframe where
  "df_23_of_160 =
     \<lparr>df_columns = [(''amount'', col_23_of_160)], df_len = 160, df_memory_usage_mb = 0\<rparr>"


text \<open>
  A frame with a missing amount and two spellings of one category, a collaborator whose
  first call fails and whose later calls succeed, and small results of the first three
  agents.
\<close>

definition df_quality_example :: dataframe where
  "df_quality_example =
     \<lparr>df_columns = [(''id'', IntSeries [1, 2, 3]),
                    (''amount'', FloatSeries [Some 10, None, Some 30]),
                    (''category'', ObjSeries [Some ''A'', Some ''a '', Some ''B''])],
      df_len = 3, df_memory_usage_mb = 0\<rparr>"

definition llm_first_fails :: lm where
  "llm_first_fails i req =
     (if i = 0 then Inl (Exception ''timeout'') else Inr (\<lambda>field. ''generated '' @ field))"

definition example_schema_results :: schema_results where
  "example_schema_results =
     \<lparr>sr_columns = [\<lparr>cp_column_name = ''amount'', cp_pandas_dtype = ''float64'',
                      cp_null_count = 0, cp_null_percentage = 0, cp_unique_count = 1,
                      cp_sample_values = PList [PFloat (Fin 3)], cp_business_type = ''Unknown'',
                      cp_confidence = ''low'', cp_reasoning = ''Error in LLM interpretation: '',
                      cp_recommendation = ''Review manually''\<rparr>],
      sr_summary = \<lparr>total_columns = 1, total_rows = 1, memory_usage_mb = 0\<rparr>\<rparr>"

definition example_profile_results :: profile_results where
  "example_profile_results = \<lparr>numeric_analysis = [], categorical_analysis = []\<rparr>"

definition example_quality_results :: quality_results where
  "example_quality_results = \<lparr>issues_found = [], qr_summary = summary_init\<rparr>"


section \<open>The supervisor's pipeline\<close>

lemma step_schema_fails:
  assumes "fst (schema_agent self df w) = Inl e"
  shows "step_schema self df (initial_results, w)
           = (initial_results\<lparr>errors := [''Schema Agent failed: '' @ str_exn e]\<rparr>,
              snd (schema_agent self df w))"
  using assms by (cases "schema_agent self df w") (simp add: step_schema_def initial_results_def)

lemma step_profile_keeps:
  "step_profile self df (r, w) = (r', w') \<Longrightarrow>
     schema_analysis r' = schema_analysis r \<and> ml_recommendations r' = ml_recommendations r
     \<and> deployment_strategy r' = deployment_strategy r
     \<and> business_communication r' = business_communication r
     \<and> set (agents_completed r') \<subseteq> set (agents_completed r) \<union> {''profile_agent''}
     \<and> (errors r \<noteq> [] \<longrightarrow> errors r' \<noteq> [])"
  by (auto simp: step_profile_def split: prod.splits sum.splits)

lemma step_quality_keeps:
  "step_quality self df (r, w) = (r', w') \<Longrightarrow>
     schema_analysis r' = schema_analysis r \<and> ml_recommendations r' = ml_recommendations r
     \<and> deployment_strategy r' = deployment_strategy r
     \<and> business_communication r' = business_communication r
     \<and> set (agents_completed r') \<subseteq> set (agents_completed r) \<union> {''quality_agent''}
     \<and> (errors r \<noteq> [] \<longrightarrow> errors r' \<noteq> [])"
  by (auto simp: step_quality_def split: prod.splits sum.splits)

lemma gated_steps_skip:
  assumes "schema_analysis r = None" "ml_recommendations r = None"
  shows "step_business_communication self (step_deployment self (step_ml_advisor self (r, w)))
           = (r, w)"
  using assms
  by (simp add: step_ml_advisor_def step_deployment_def step_business_communication_def
      truthy_def)

lemma after_three:
  assumes "fst (schema_agent self df w) = Inl e"
  obtains r w' where
    "step_quality self df (step_profile self df (step_schema self df (initial_results, w)))
       = (r, w')"
    "schema_analysis r = None" "ml_recommendations r = None" "deployment_strategy r = None"
    "business_communication r = None" "errors r \<noteq> []"
    "set (agents_completed r) \<subseteq> {''profile_agent'', ''quality_agent''}"
proof -
  obtain r1 w1 where
    s1: "step_profile self df (step_schema self df (initial_results, w)) = (r1, w1)"
    by (cases "step_profile self df (step_schema self df (initial_results, w))")
  obtain r2 w2 where s2: "step_quality self df (r1, w1) = (r2, w2)"
    by (cases "step_quality self df (r1, w1)")
  from s1 have k1: "schema_analysis r1 = None" "ml_recommendations r1 = None"
    "deployment_strategy r1 = None" "business_communication r1 = None" "errors r1 \<noteq> []"
    "set (agents_completed r1) \<subseteq> {''profile_agent''}"
    using step_profile_keeps[of self df
        "initial_results\<lparr>errors := [''Schema Agent failed: '' @ str_exn e]\<rparr>"
        "snd (schema_agent self df w)" r1 w1]
    unfolding step_schema_fails[OF assms] by (auto simp: initial_results_def)
  from step_quality_keeps[OF s2] k1 have
    "schema_analysis r2 = None" "ml_recommendations r2 = None" "deployment_strategy r2 = None"
    "business_communication r2 = None" "errors r2 \<noteq> []"
    "set (agents_completed r2) \<subseteq> {''profile_agent'', ''quality_agent''}"
    by auto
  with s1 s2 that show thesis by simp
qed

lemma first_three_ignore_later:
  "step_quality (self\<lparr>ml_advisor_agent := a, deployment_agent := b,
                      business_communication_agent := c\<rparr>) df
     (step_profile (self\<lparr>ml_advisor_agent := a, deployment_agent := b,
                         business_communication_agent := c\<rparr>) df
       (step_schema (self\<lparr>ml_advisor_agent := a, deployment_agent := b,
                          business_communication_agent := c\<rparr>) df rw))
   = step_quality self df (step_profile self df (step_schema self df rw))"
  by (simp add: step_quality_def step_profile_def step_schema_def)

text \<open>
  Claim C1. If the schema agent raises during \<open>analyze_dataset\<close>, the ML advisor, the
  deployment and the business communication stages are not run: their result fields stay
  None, their names are not in \<open>agents_completed\<close>, the final status is
  \<open>partial_failure\<close>, and the whole run is the same whatever these three agents are.
\<close>

theorem schema_failure_gates_downstream:
  assumes "fst (schema_agent self df w) = Inl e"
  shows "ml_recommendations (fst (analyze_dataset self df w)) = None
       \<and> deployment_strategy (fst (analyze_dataset self df w)) = None
       \<and> business_communication (fst (analyze_dataset self df w)) = None
       \<and> ''ml_advisor_agent'' \<notin> set (agents_completed (fst (analyze_dataset self df w)))
       \<and> ''deployment_agent'' \<notin> set (agents_completed (fst (analyze_dataset self df w)))
       \<and> ''business_communication_agent''
           \<notin> set (agents_completed (fst (analyze_dataset self df w)))
       \<and> status (fst (analyze_dataset self df w)) = ''partial_failure''
       \<and> analyze_dataset (self\<lparr>ml_advisor_agent := a, deployment_agent := b,
                                 business_communication_agent := c\<rparr>) df w
           = analyze_dataset self df w"
proof -
  let ?self' = "self\<lparr>ml_advisor_agent := a, deployment_agent := b,
                      business_communication_agent := c\<rparr>"
  from after_three[OF assms] obtain r w' where
    s: "step_quality self df (step_profile self df (step_schema self df (initial_results, w)))
          = (r, w')"
    and k: "schema_analysis r = None" "ml_recommendations r = None"
    "deployment_strategy r = None" "business_communication r = None" "errors r \<noteq> []"
    "set (agents_completed r) \<subseteq> {''profile_agent'', ''quality_agent''}"
    by blast
  have res: "analyze_dataset self df w = (update_status r, w')"
    by (simp add: analyze_dataset_def s gated_steps_skip[OF k(1,2)])
  have res': "analyze_dataset ?self' df w = (update_status r, w')"
    by (simp add: analyze_dataset_def first_three_ignore_later s gated_steps_skip[OF k(1,2)])
  have "''ml_advisor_agent'' \<notin> set (agents_completed r)"
    "''deployment_agent'' \<notin> set (agents_completed r)"
    "''business_communication_agent'' \<notin> set (agents_completed r)"
    using k(6) by auto
  with k res res' show ?thesis
    by (simp add: update_status_def)
qed

text \<open>
  The schema agent of the source raises on a file with a header and no rows; there the
  three stages are skipped.
\<close>

theorem schema_failure_gates_downstream_witness:
  "fst (schema_agent (SupervisorAgent_init lib_nan always_fail) df_header_only [])
     = Inl ZeroDivisionError
   \<and> ml_recommendations
       (fst (analyze_dataset (SupervisorAgent_init lib_nan always_fail) df_header_only []))
     = None
   \<and> ''ml_advisor_agent''
       \<notin> set (agents_completed
            (fst (analyze_dataset (SupervisorAgent_init lib_nan always_fail) df_header_only [])))
   \<and> status
       (fst (analyze_dataset (SupervisorAgent_init lib_nan always_fail) df_header_only []))
     = ''partial_failure''"
proof -
  have h: "fst (schema_agent (SupervisorAgent_init lib_nan always_fail) df_header_only [])
             = Inl ZeroDivisionError"
    by code_simp
  from schema_failure_gates_downstream[OF h] h show ?thesis by blast
qed

text \<open>
  Claim C3. The result of \<open>analyze_dataset\<close> has status \<open>completed\<close> exactly when its
  list of errors is empty and status \<open>partial_failure\<close> exactly when it is not; it is
  never \<open>failed\<close> and never still \<open>in_progress\<close>.
\<close>

theorem analyze_dataset_status:
  "(status (fst (analyze_dataset self df w)) = ''completed'')
     = (errors (fst (analyze_dataset self df w)) = [])
   \<and> (status (fst (analyze_dataset self df w)) = ''partial_failure'')
     = (errors (fst (analyze_dataset self df w)) \<noteq> [])
   \<and> status (fst (analyze_dataset self df w)) \<noteq> ''failed''
   \<and> status (fst (analyze_dataset self df w)) \<noteq> ''in_progress''"
  by (simp add: analyze_dataset_def update_status_def split: prod.splits)

theorem analyze_dataset_status_witness:
  "status (fst (analyze_dataset (SupervisorAgent_init lib_nan always_fail) df_header_only []))
     = ''partial_failure''
   \<and> errors (fst (analyze_dataset (SupervisorAgent_init lib_nan always_fail) df_header_only []))
     = [''Schema Agent failed: division by zero'']"
proof -
  have h: "errors
             (fst (analyze_dataset (SupervisorAgent_init lib_nan always_fail) df_header_only []))
           = [''Schema Agent failed: division by zero'']"
    by code_simp
  from analyze_dataset_status[of "SupervisorAgent_init lib_nan always_fail" df_header_only "[]"] h
  show ?thesis by simp
qed

text \<open>
  Claim C10. When one of the five cached results (schema, quality, ML recommendations,
  deployment strategy, business communication) is absent, \<open>generate_prd\<close> returns the fixed
  error result and leaves the world as it was: no request reaches the collaborator, and
  the function has no exceptional outcome.
\<close>

theorem generate_prd_gate:
  assumes "schema_analysis results = None \<or> quality_analysis results = None
           \<or> ml_recommendations results = None \<or> deployment_strategy results = None
           \<or> business_communication results = None"
  shows "generate_prd self results w = (insufficient_data, w)
         \<and> prd_status insufficient_data = ''error''
         \<and> prd_document insufficient_data = ''# Error'' @ [CHR 0x0A, CHR 0x0A]
             @ ''Insufficient data to generate PRD. Please complete all analysis steps first.''"
  using assms by (auto simp: generate_prd_def truthy_def truthy_dict_def insufficient_data_def nl_def)

theorem generate_prd_gate_witness:
  "business_communication
     (fst (analyze_dataset (SupervisorAgent_init lib_nan always_fail) df_header_only [])) = None
   \<and> generate_prd (SupervisorAgent_init lib_nan always_fail)
       (fst (analyze_dataset (SupervisorAgent_init lib_nan always_fail) df_header_only [])) []
     = (insufficient_data, [])"
proof -
  have h: "business_communication
             (fst (analyze_dataset (SupervisorAgent_init lib_nan always_fail) df_header_only []))
           = None"
    by code_simp
  from generate_prd_gate[of "fst (analyze_dataset (SupervisorAgent_init lib_nan always_fail)
      df_header_only [])" "SupervisorAgent_init lib_nan always_fail" "[]"] h
  show ?thesis by blast
qed

section \<open>The agents return\<close>

lemma isnull_sum_le: "isnull_sum s \<le> series_len s"
  by (cases s) simp_all

lemma somes_length_le: "length (somes xs) \<le> length xs"
  by (induction xs rule: somes.induct) simp_all

lemma numeric_cells_length: "length (numeric_cells s) \<le> series_len s"
  by (cases s) simp_all

lemma py_truediv_pos: "0 < b \<Longrightarrow> py_truediv a b = Inr (fl (of_nat a / of_nat b))"
  by (simp add: py_truediv_def)

lemma schema_column_ok:
  assumes "0 < df_len df"
  shows "\<exists>cp. SchemaAgent_analyze_column llm df c w
            = (Inr cp, w @ [(''SchemaInterpreter'',
                  [(''column_name'', PStr (fst c)), (''pandas_dtype'', PStr (dtype_str (snd c))),
                   (''null_count'', PInt (int (isnull_sum (snd c)))),
                   (''unique_count'', PInt (int (nunique (snd c)))),
                   (''total_count'', PInt (int (df_len df))),
                   (''sample_values'',
                      if length (dropna (snd c)) > 0
                      then PList (take MAX_SAMPLE_VALUES (dropna (snd c)))
                      else PStr ''All null values'')])])
          \<and> cp_null_count cp = isnull_sum (snd c)
          \<and> cp_null_percentage cp
              = py_round2 (py_mul (fl (of_nat (isnull_sum (snd c)) / of_nat (df_len df))) 100)"
  using assms
  by (simp add: SchemaAgent_analyze_column_def py_truediv_pos predict_def Let_def
      split: sum.splits)

lemma schema_column_raises:
  assumes "df_len df = 0"
  shows "fst (SchemaAgent_analyze_column llm df c w) = Inl ZeroDivisionError"
  using assms
  by (simp add: SchemaAgent_analyze_column_def py_truediv_def predict_def Let_def
      split: sum.splits)

lemma schema_columns_ok:
  assumes "0 < df_len df"
  shows "\<exists>cps w'. SchemaAgent_columns llm df cs acc w = (Inr cps, w')
           \<and> length cps = length acc + length cs"
proof (induction cs arbitrary: acc w)
  case Nil
  show ?case by simp
next
  case (Cons c cs)
  from schema_column_ok[OF assms, of llm c w] obtain cp w1 where
    c: "SchemaAgent_analyze_column llm df c w = (Inr cp, w1)" by blast
  from Cons.IH[of "acc @ [cp]" w1] c show ?case by auto
qed

lemma schema_analyze_ok:
  assumes "0 < df_len df"
  shows "\<exists>sr w'. SchemaAgent_analyze llm df w = (Inr sr, w')"
  using schema_columns_ok[OF assms, of llm "df_columns df" "[]" w]
  by (auto simp: SchemaAgent_analyze_def)

lemma schema_analyze_raises:
  assumes "df_len df = 0" "df_columns df \<noteq> []"
  shows "fst (SchemaAgent_analyze llm df w) = Inl ZeroDivisionError"
proof -
  from assms(2) obtain c cs where cs: "df_columns df = c # cs" by (cases "df_columns df") auto
  obtain w1 where "SchemaAgent_analyze_column llm df c w = (Inl ZeroDivisionError, w1)"
    using schema_column_raises[OF assms(1), of llm c w]
    by (cases "SchemaAgent_analyze_column llm df c w") auto
  then show ?thesis by (simp add: SchemaAgent_analyze_def cs)
qed

lemma profile_analyze_ok: "\<exists>pr w'. ProfileAgent_analyze lib llm df w = (Inr pr, w')"
  by (simp add: ProfileAgent_analyze_def split: prod.splits)

lemma ml_analyze_ok: "\<exists>ml w'. MLAdvisorAgent_analyze llm sr pr qr w = (Inr ml, w')"
  by (simp add: MLAdvisorAgent_analyze_def Let_def split: prod.splits)

lemma deployment_analyze_ok:
  "\<exists>d w'. DeploymentAgent_analyze llm (Some sr) ml w = (Inr d, w') \<and> d \<noteq> []"
  by (auto simp: DeploymentAgent_analyze_def DeploymentAgent_format_data_summary_def Let_def
      DeploymentAgent_generate_error_response_def deployment_fields_def
      split: prod.splits sum.splits)

lemma communication_analyze_ok:
  "\<exists>d w'. BusinessCommunicationAgent_analyze llm ml dep w = (Inr d, w') \<and> d \<noteq> []"
  by (auto simp: BusinessCommunicationAgent_analyze_def Let_def
      BusinessCommunicationAgent_generate_error_response_def communication_fields_def
      split: prod.splits sum.splits)

section \<open>Quality issues and their summary\<close>

lemma for_each_try_ok:
  assumes "\<And>c w. c \<in> set cs \<Longrightarrow> \<exists>rs w'. f c w = (Inr rs, w') \<and> list_all P rs"
  shows "\<exists>rs w'. for_each_try f cs w = (Inr rs, w') \<and> list_all P rs"
  using assms
proof (induction cs arbitrary: w)
  case Nil
  show ?case by simp
next
  case (Cons c cs)
  from Cons.prems[of c w] obtain rs w1 where c: "f c w = (Inr rs, w1)" "list_all P rs"
    by auto
  from Cons.IH[of w1] Cons.prems obtain rs' w2 where
    r: "for_each_try f cs w1 = (Inr rs', w2)" "list_all P rs'"
    by auto
  from c r show ?case by simp
qed

lemma for_each_all:
  assumes "\<And>c w. list_all P (fst (f c w))"
  shows "list_all P (concat (fst (for_each f cs w)))"
proof (induction cs arbitrary: w)
  case Nil
  show ?case by simp
next
  case (Cons c cs)
  obtain r w1 where c: "f c w = (r, w1)" by (cases "f c w")
  obtain rs w2 where r: "for_each f cs w1 = (rs, w2)" by (cases "for_each f cs w1")
  from assms[of c w] c have "list_all P r" by simp
  moreover from Cons.IH[of w1] r have "list_all P (concat rs)" by simp
  ultimately show ?case using c r by simp
qed

lemma check_missing_column_ok:
  assumes "series_len (snd c) = df_len df"
  shows "\<exists>rs w'. check_missing_column llm df c w = (Inr rs, w') \<and> list_all known_severity rs"
proof (cases "isnull_sum (snd c) > 0")
  case False
  then show ?thesis by (simp add: check_missing_column_def)
next
  case True
  with isnull_sum_le[of "snd c"] assms have "0 < df_len df" by simp
  with True show ?thesis
    by (simp add: check_missing_column_def py_truediv_pos Let_def known_severity_def
        split: prod.splits sum.splits)
qed

lemma check_missing_values_ok:
  assumes "wf_df df"
  shows "\<exists>rs w'. QualityAgent_check_missing_values llm df w = (Inr rs, w')
           \<and> list_all known_severity rs"
  unfolding QualityAgent_check_missing_values_def
proof (rule for_each_try_ok)
  fix c w assume "c \<in> set (df_columns df)"
  with assms have "series_len (snd c) = df_len df"
    by (simp add: wf_df_def list_all_iff)
  then show "\<exists>rs w'. check_missing_column llm df c w = (Inr rs, w') \<and> list_all known_severity rs"
    by (rule check_missing_column_ok)
qed

lemma check_duplicates_ok:
  "list_all known_severity (fst (QualityAgent_check_duplicates llm df w))"
  by (simp add: QualityAgent_check_duplicates_def Let_def known_severity_def
      split: prod.splits sum.splits)

lemma check_outliers_column_ok:
  assumes "series_len (snd c) = df_len df"
  shows "\<exists>rs w'. check_outliers_column llm df c w = (Inr rs, w') \<and> list_all known_severity rs"
proof -
  let ?cells = "numeric_cells (snd c)"
  let ?Q1 = "pd_quantile ?cells (1 / 4)" and ?Q3 = "pd_quantile ?cells (3 / 4)"
  let ?lo = "pf_sub ?Q1 (pf_mul (Fin (3 / 2)) (pf_sub ?Q3 ?Q1))"
  let ?hi = "pf_add ?Q3 (pf_mul (Fin (3 / 2)) (pf_sub ?Q3 ?Q1))"
  let ?out = "filter (\<lambda>v. pf_lt (Fin v) ?lo \<or> pf_lt ?hi (Fin v)) (somes ?cells)"
  show ?thesis
  proof (cases "length ?out > 0")
    case False
    then show ?thesis by (simp add: check_outliers_column_def Let_def)
  next
    case True
    have "length ?out \<le> length (somes ?cells)" by (rule length_filter_le)
    also have "\<dots> \<le> length ?cells" by (rule somes_length_le)
    also have "\<dots> \<le> df_len df" using numeric_cells_length[of "snd c"] assms by simp
    finally have "length ?out \<le> df_len df" .
    with True have "0 < df_len df" by linarith
    with True show ?thesis
      by (simp add: check_outliers_column_def py_truediv_pos Let_def known_severity_def
          split: prod.splits sum.splits)
  qed
qed

lemma check_outliers_ok:
  assumes "wf_df df"
  shows "\<exists>rs w'. QualityAgent_check_outliers llm df w = (Inr rs, w')
           \<and> list_all known_severity rs"
  unfolding QualityAgent_check_outliers_def
proof (rule for_each_try_ok)
  fix c w assume "c \<in> set (filter (\<lambda>c. is_number (snd c)) (df_columns df))"
  with assms have "series_len (snd c) = df_len df"
    by (simp add: wf_df_def list_all_iff)
  then show "\<exists>rs w'. check_outliers_column llm df c w = (Inr rs, w') \<and> list_all known_severity rs"
    by (rule check_outliers_column_ok)
qed

lemma check_consistency_column_ok:
  "list_all known_severity (fst (check_consistency_column llm c w))"
  by (simp add: check_consistency_column_def Let_def known_severity_def
      split: prod.splits sum.splits)

lemma check_consistency_ok:
  "list_all known_severity (fst (QualityAgent_check_categorical_consistency llm df w))"
  using for_each_all[of known_severity "check_consistency_column llm", OF check_consistency_column_ok]
  by (simp add: QualityAgent_check_categorical_consistency_def split: prod.splits)
     (metis fst_conv)

lemma update_summary_counts:
  assumes "list_all known_severity issues"
    and "m ''total_issues'' = Some t" "m ''critical'' = Some c"
    and "m ''warnings'' = Some wn" "m ''info'' = Some i"
  shows "\<exists>m' c' wn' i'. update_summary issues m = Inr m'
           \<and> m' ''total_issues'' = Some (t + length issues)
           \<and> m' ''critical'' = Some c' \<and> m' ''warnings'' = Some wn' \<and> m' ''info'' = Some i'
           \<and> c' + wn' + i' = c + wn + i + length issues"
  using assms
proof (induction issues arbitrary: m t c wn i)
  case Nil
  then show ?case by simp
next
  case (Cons issue rest)
  let ?m1 = "m(''total_issues'' \<mapsto> t + 1)"
  let ?m2 = "?m1(qi_severity issue \<mapsto> dict_get ?m1 (qi_severity issue) 0 + 1)"
  have step: "update_summary (issue # rest) m = update_summary rest ?m2"
    using Cons.prems(2) by (simp add: Let_def)
  from Cons.prems(1) have ks: "known_severity issue" and rest: "list_all known_severity rest"
    by simp_all
  from ks consider "qi_severity issue = ''critical''" | "qi_severity issue = ''warnings''"
    | "qi_severity issue = ''info''"
    by (auto simp: known_severity_def)
  then show ?case
  proof cases
    case 1
    have "\<exists>m' c' wn' i'. update_summary rest ?m2 = Inr m'
           \<and> m' ''total_issues'' = Some (t + 1 + length rest)
           \<and> m' ''critical'' = Some c' \<and> m' ''warnings'' = Some wn' \<and> m' ''info'' = Some i'
           \<and> c' + wn' + i' = (c + 1) + wn + i + length rest"
      by (rule Cons.IH[OF rest]) (simp_all add: 1 dict_get_def Cons.prems)
    then show ?thesis unfolding step by auto
  next
    case 2
    have "\<exists>m' c' wn' i'. update_summary rest ?m2 = Inr m'
           \<and> m' ''total_issues'' = Some (t + 1 + length rest)
           \<and> m' ''critical'' = Some c' \<and> m' ''warnings'' = Some wn' \<and> m' ''info'' = Some i'
           \<and> c' + wn' + i' = c + (wn + 1) + i + length rest"
      by (rule Cons.IH[OF rest]) (simp_all add: 2 dict_get_def Cons.prems)
    then show ?thesis unfolding step by auto
  next
    case 3
    have "\<exists>m' c' wn' i'. update_summary rest ?m2 = Inr m'
           \<and> m' ''total_issues'' = Some (t + 1 + length rest)
           \<and> m' ''critical'' = Some c' \<and> m' ''warnings'' = Some wn' \<and> m' ''info'' = Some i'
           \<and> c' + wn' + i' = c + wn + (i + 1) + length rest"
      by (rule Cons.IH[OF rest]) (simp_all add: 3 dict_get_def Cons.prems)
    then show ?thesis unfolding step by auto
  qed
qed

lemma quality_analyze_result:
  assumes "wf_df df"
  shows "\<exists>r w'. QualityAgent_analyze llm df w = (Inr r, w')
           \<and> dict_get (qr_summary r) ''critical'' 0 + dict_get (qr_summary r) ''warnings'' 0
               + dict_get (qr_summary r) ''info'' 0
             = dict_get (qr_summary r) ''total_issues'' 0
           \<and> dict_get (qr_summary r) ''total_issues'' 0 = length (issues_found r)"
proof -
  from check_missing_values_ok[OF assms] obtain mi w1 where
    a: "QualityAgent_check_missing_values llm df w = (Inr mi, w1)" "list_all known_severity mi"
    by blast
  obtain di w2 where b: "QualityAgent_check_duplicates llm df w1 = (di, w2)"
    by (cases "QualityAgent_check_duplicates llm df w1")
  from check_duplicates_ok[of llm df w1] b have b': "list_all known_severity di" by simp
  from check_outliers_ok[OF assms] obtain oi w3 where
    c: "QualityAgent_check_outliers llm df w2 = (Inr oi, w3)" "list_all known_severity oi"
    by blast
  obtain ci w4 where d: "QualityAgent_check_categorical_consistency llm df w3 = (ci, w4)"
    by (cases "QualityAgent_check_categorical_consistency llm df w3")
  from check_consistency_ok[of llm df w3] d have d': "list_all known_severity ci" by simp
  let ?issues = "mi @ di @ oi @ ci"
  have all: "list_all known_severity ?issues" using a(2) b' c(2) d' by simp
  from update_summary_counts[OF all, of summary_init 0 0 0 0]
  obtain m' c' wn' i' where
    u: "update_summary ?issues summary_init = Inr m'"
      "m' ''total_issues'' = Some (length ?issues)"
      "m' ''critical'' = Some c'" "m' ''warnings'' = Some wn'" "m' ''info'' = Some i'"
      "c' + wn' + i' = length ?issues"
    by (auto simp: summary_init_def)
  have "QualityAgent_analyze llm df w = (Inr \<lparr>issues_found = ?issues, qr_summary = m'\<rparr>, w4)"
    by (simp add: QualityAgent_analyze_def a(1) b c(1) d u(1))
  with u show ?thesis by (simp add: dict_get_def)
qed

text \<open>
  Claim C4. For every data frame whose columns all have \<open>len(df)\<close> cells, the quality
  agent returns a result in which the counts of the three severities add up to
  \<open>total_issues\<close>, and \<open>total_issues\<close> is the length of \<open>issues_found\<close>.
\<close>

theorem quality_summary_counts:
  assumes "wf_df df"
  shows "\<exists>r w'. QualityAgent_analyze llm df w = (Inr r, w')
           \<and> dict_get (qr_summary r) ''critical'' 0 + dict_get (qr_summary r) ''warnings'' 0
               + dict_get (qr_summary r) ''info'' 0
             = dict_get (qr_summary r) ''total_issues'' 0
           \<and> dict_get (qr_summary r) ''total_issues'' 0 = length (issues_found r)"
  using assms by (rule quality_analyze_result)

theorem quality_summary_counts_witness:
  "wf_df df_quality_example
   \<and> (\<exists>r w'. QualityAgent_analyze always_fail df_quality_example [] = (Inr r, w')
         \<and> map qi_severity (issues_found r) = [''warnings'', ''info'']
         \<and> dict_get (qr_summary r) ''critical'' 0 + dict_get (qr_summary r) ''warnings'' 0
             + dict_get (qr_summary r) ''info'' 0 = 2
         \<and> dict_get (qr_summary r) ''total_issues'' 0 = 2)"
proof -
  have wf: "wf_df df_quality_example" by code_simp
  from quality_summary_counts[OF wf, of always_fail "[]"] obtain r w' where
    r: "QualityAgent_analyze always_fail df_quality_example [] = (Inr r, w')"
      "dict_get (qr_summary r) ''critical'' 0 + dict_get (qr_summary r) ''warnings'' 0
         + dict_get (qr_summary r) ''info'' 0 = dict_get (qr_summary r) ''total_issues'' 0"
      "dict_get (qr_summary r) ''total_issues'' 0 = length (issues_found r)"
    by blast
  have "(case fst (QualityAgent_analyze always_fail df_quality_example []) of
           Inr r \<Rightarrow> map qi_severity (issues_found r) | Inl e \<Rightarrow> [])
          = [''warnings'', ''info'']"
    by code_simp
  with r(1) have sev: "map qi_severity (issues_found r) = [''warnings'', ''info'']" by simp
  then have "length (map qi_severity (issues_found r)) = 2" by simp
  then have "length (issues_found r) = 2" by simp
  with r sev wf show ?thesis by auto
qed

section \<open>Failures of the collaborator\<close>

lemma instructions_unable: "MLAdvisorAgent_get_use_case_instructions ''Unable to detect'' = base_instructions"
  by code_simp

text \<open>
  Claim C8. When the first call of \<open>MLAdvisorAgent.analyze\<close> (use-case detection) fails,
  the second call (feature planning) is still made, with \<open>target_variable = "Unknown"\<close>
  and \<open>ml_use_case = "Unable to detect"\<close>; the use-case fields of the result are the
  sentinels of the first call, and the feature fields are the outputs of the second call
  or, when that call fails too, its own sentinels.
\<close>

theorem ml_advisor_detection_failure:
  assumes "llm (length w)
             (''MLUseCaseDetector'',
              [(''dataset_overview'', MLAdvisorAgent_create_dataset_overview sr),
               (''key_columns'', MLAdvisorAgent_extract_key_columns sr pr),
               (''quality_issues'', MLAdvisorAgent_summarize_quality_issues qr)]) = Inl e"
  shows "snd (MLAdvisorAgent_analyze llm sr pr qr w)
           = w @ [(''MLUseCaseDetector'',
                   [(''dataset_overview'', MLAdvisorAgent_create_dataset_overview sr),
                    (''key_columns'', MLAdvisorAgent_extract_key_columns sr pr),
                    (''quality_issues'', MLAdvisorAgent_summarize_quality_issues qr)]),
                  (''FeatureEngineeringPlanner'',
                   [(''column_summary'', MLAdvisorAgent_create_column_summary sr pr),
                    (''target_variable'', PStr ''Unknown''),
                    (''ml_use_case'', PStr ''Unable to detect''),
                    (''planning_instructions'', PStr base_instructions)])]
       \<and> (\<exists>ml. fst (MLAdvisorAgent_analyze llm sr pr qr w) = Inr ml
             \<and> ml_use_case ml
                 = \<lparr>detected_use_case = ''Unable to detect'', target_variable = ''Unknown'',
                    target_reasoning = ''Error: '' @ str_exn e, suitability_score = ''0'',
                    alternative_use_case = ''N/A''\<rparr>
             \<and> feature_engineering ml
                 = (case llm (Suc (length w))
                          (''FeatureEngineeringPlanner'',
                           [(''column_summary'', MLAdvisorAgent_create_column_summary sr pr),
                            (''target_variable'', PStr ''Unknown''),
                            (''ml_use_case'', PStr ''Unable to detect''),
                            (''planning_instructions'', PStr base_instructions)]) of
                      Inr feature_planning \<Rightarrow>
                        \<lparr>feature_plan = feature_planning ''feature_plan'',
                         training_recommendations = feature_planning ''training_recommendations'',
                         mlflow_setup = feature_planning ''mlflow_setup''\<rparr>
                    | Inl e2 \<Rightarrow>
                        \<lparr>feature_plan = ''Error generating plan: '' @ str_exn e2,
                         training_recommendations = ''Unable to generate recommendations'',
                         mlflow_setup = ''Unable to generate MLflow recommendations''\<rparr>))"
  using assms
  by (simp add: MLAdvisorAgent_analyze_def predict_def Let_def instructions_unable
      split: sum.splits)

theorem ml_advisor_detection_failure_witness:
  "llm_first_fails (length ([] :: world))
     (''MLUseCaseDetector'',
      [(''dataset_overview'', MLAdvisorAgent_create_dataset_overview example_schema_results),
       (''key_columns'',
          MLAdvisorAgent_extract_key_columns example_schema_results example_profile_results),
       (''quality_issues'', MLAdvisorAgent_summarize_quality_issues example_quality_results)])
     = Inl (Exception ''timeout'')
   \<and> map fst (snd (MLAdvisorAgent_analyze llm_first_fails example_schema_results
                     example_profile_results example_quality_results []))
       = [''MLUseCaseDetector'', ''FeatureEngineeringPlanner'']
   \<and> (\<exists>ml. fst (MLAdvisorAgent_analyze llm_first_fails example_schema_results
                    example_profile_results example_quality_results []) = Inr ml
         \<and> target_variable (ml_use_case ml) = ''Unknown''
         \<and> target_reasoning (ml_use_case ml) = ''Error: timeout''
         \<and> feature_plan (feature_engineering ml) = ''generated feature_plan'')"
proof -
  have h: "llm_first_fails (length ([] :: world))
     (''MLUseCaseDetector'',
      [(''dataset_overview'', MLAdvisorAgent_create_dataset_overview example_schema_results),
       (''key_columns'',
          MLAdvisorAgent_extract_key_columns example_schema_results example_profile_results),
       (''quality_issues'', MLAdvisorAgent_summarize_quality_issues example_quality_results)])
     = Inl (Exception ''timeout'')"
    by (simp add: llm_first_fails_def)
  from ml_advisor_detection_failure[where llm = llm_first_fails and w = "[]"
      and sr = example_schema_results and pr = example_profile_results
      and qr = example_quality_results and e = "Exception ''timeout''", OF h] h
  show ?thesis
    by (auto simp: llm_first_fails_def)
qed

lemma all_fail_fun:
  assumes "\<And>i req. isl (llm i req)"
  obtains err where "llm = (\<lambda>i req. Inl (err i req))"
proof
  show "llm = (\<lambda>i req. Inl (projl (llm i req)))"
    using assms by (auto simp: fun_eq_iff)
qed

lemma for_each_list_all:
  assumes "\<And>c w. c \<in> set cs \<Longrightarrow> P c (fst (f c w))"
  shows "list_all2 P cs (fst (for_each f cs w))"
  using assms
proof (induction cs arbitrary: w)
  case Nil
  show ?case by simp
next
  case (Cons c cs)
  obtain r w1 where c: "f c w = (r, w1)" by (cases "f c w")
  obtain rs w2 where r: "for_each f cs w1 = (rs, w2)" by (cases "for_each f cs w1")
  from Cons.prems[of c w] c have "P c r" by simp
  moreover from Cons.IH[of w1] Cons.prems r have "list_all2 P cs rs" by simp
  ultimately show ?case using c r by simp
qed

lemma schema_column_fallback:
  assumes "0 < df_len df"
  shows "\<exists>cp w'. SchemaAgent_analyze_column (\<lambda>i req. Inl (err i req)) df c w = (Inr cp, w')
           \<and> schema_fallback c cp"
  using assms
  by (simp add: SchemaAgent_analyze_column_def py_truediv_pos predict_def Let_def
      schema_fallback_def)

lemma schema_columns_fallback:
  assumes "0 < df_len df"
  shows "\<exists>cps w'. SchemaAgent_columns (\<lambda>i req. Inl (err i req)) df cs acc w = (Inr (acc @ cps), w')
           \<and> list_all2 schema_fallback cs cps"
proof (induction cs arbitrary: acc w)
  case Nil
  show ?case by simp
next
  case (Cons c cs)
  from schema_column_fallback[OF assms, of err c w] obtain cp w1 where
    c: "SchemaAgent_analyze_column (\<lambda>i req. Inl (err i req)) df c w = (Inr cp, w1)"
      "schema_fallback c cp"
    by blast
  from Cons.IH[of "acc @ [cp]" w1] obtain cps w2 where
    r: "SchemaAgent_columns (\<lambda>i req. Inl (err i req)) df cs (acc @ [cp]) w1
          = (Inr ((acc @ [cp]) @ cps), w2)"
      "list_all2 schema_fallback cs cps"
    by blast
  have "SchemaAgent_columns (\<lambda>i req. Inl (err i req)) df (c # cs) acc w
          = (Inr (acc @ cp # cps), w2)"
    using c(1) r(1) by simp
  moreover have "list_all2 schema_fallback (c # cs) (cp # cps)"
    using c(2) r(2) by simp
  ultimately show ?case by blast
qed

lemma schema_analyze_fallback:
  assumes "0 < df_len df"
  shows "\<exists>sr w'. SchemaAgent_analyze (\<lambda>i req. Inl (err i req)) df w = (Inr sr, w')
           \<and> list_all2 schema_fallback (df_columns df) (sr_columns sr)
           \<and> sr_summary sr = \<lparr>total_columns = length (df_columns df), total_rows = df_len df,
                                memory_usage_mb = df_memory_usage_mb df\<rparr>"
proof -
  from schema_columns_fallback[OF assms, of err "df_columns df" "[]" w] obtain cps w' where
    "SchemaAgent_columns (\<lambda>i req. Inl (err i req)) df (df_columns df) [] w = (Inr cps, w')"
    "list_all2 schema_fallback (df_columns df) cps"
    by auto
  then show ?thesis by (simp add: SchemaAgent_analyze_def)
qed

lemma numeric_column_fallback:
  "numeric_fallback c (fst (ProfileAgent_analyze_numeric_column lib (\<lambda>i req. Inl (err i req)) c w))"
  by (simp add: ProfileAgent_analyze_numeric_column_def predict_def Let_def numeric_fallback_def)

lemma categorical_column_fallback:
  "categorical_fallback c (fst (ProfileAgent_analyze_categorical_column (\<lambda>i req. Inl (err i req)) c w))"
  by (simp add: ProfileAgent_analyze_categorical_column_def predict_def Let_def
      categorical_fallback_def)

lemma profile_analyze_fallback:
  "\<exists>pr w'. ProfileAgent_analyze lib (\<lambda>i req. Inl (err i req)) df w = (Inr pr, w')
     \<and> list_all2 numeric_fallback (filter (\<lambda>c. is_number (snd c)) (df_columns df))
          (numeric_analysis pr)
     \<and> list_all2 categorical_fallback (filter (\<lambda>c. is_object (snd c)) (df_columns df))
          (categorical_analysis pr)"
proof -
  let ?llm = "\<lambda>i req. Inl (err i req)"
  let ?nc = "filter (\<lambda>c. is_number (snd c)) (df_columns df)"
  let ?cc = "filter (\<lambda>c. is_object (snd c)) (df_columns df)"
  obtain na w1 where n: "for_each (ProfileAgent_analyze_numeric_column lib ?llm) ?nc w = (na, w1)"
    by (cases "for_each (ProfileAgent_analyze_numeric_column lib ?llm) ?nc w")
  obtain ca w2 where c: "for_each (ProfileAgent_analyze_categorical_column ?llm) ?cc w1 = (ca, w2)"
    by (cases "for_each (ProfileAgent_analyze_categorical_column ?llm) ?cc w1")
  have "list_all2 numeric_fallback ?nc
          (fst (for_each (ProfileAgent_analyze_numeric_column lib ?llm) ?nc w))"
    by (rule for_each_list_all) (rule numeric_column_fallback)
  with n have 1: "list_all2 numeric_fallback ?nc na" by simp
  have "list_all2 categorical_fallback ?cc
          (fst (for_each (ProfileAgent_analyze_categorical_column ?llm) ?cc w1))"
    by (rule for_each_list_all) (rule categorical_column_fallback)
  with c have 2: "list_all2 categorical_fallback ?cc ca" by simp
  have "ProfileAgent_analyze lib ?llm df w
          = (Inr \<lparr>numeric_analysis = na, categorical_analysis = ca\<rparr>, w2)"
    by (simp add: ProfileAgent_analyze_def n c)
  with 1 2 show ?thesis by simp
qed

lemma for_each_try_all:
  assumes "\<And>c w rs w'. f c w = (Inr rs, w') \<Longrightarrow> list_all P rs"
    and "for_each_try f cs w = (Inr rs, w')"
  shows "list_all P rs"
  using assms(2)
proof (induction cs arbitrary: w rs)
  case Nil
  then show ?case by simp
next
  case (Cons c cs)
  from Cons.prems obtain r1 w1 r2 where
    a: "f c w = (Inr r1, w1)" and b: "for_each_try f cs w1 = (Inr r2, w')" and rs: "rs = r1 @ r2"
    by (auto split: prod.splits sum.splits)
  from assms(1)[OF a] Cons.IH[OF b] rs show ?case by simp
qed

lemma quality_issues_all:
  assumes "QualityAgent_analyze llm df w = (Inr qr, w')"
    and m: "\<And>c w rs w'. check_missing_column llm df c w = (Inr rs, w') \<Longrightarrow> list_all P rs"
    and d: "\<And>w. list_all P (fst (QualityAgent_check_duplicates llm df w))"
    and o: "\<And>c w rs w'. check_outliers_column llm df c w = (Inr rs, w') \<Longrightarrow> list_all P rs"
    and k: "\<And>c w. list_all P (fst (check_consistency_column llm c w))"
  shows "list_all P (issues_found qr)"
proof -
  from assms(1) obtain mi w1 di w2 oi w3 ci w4 where
    a: "QualityAgent_check_missing_values llm df w = (Inr mi, w1)"
    and b: "QualityAgent_check_duplicates llm df w1 = (di, w2)"
    and c: "QualityAgent_check_outliers llm df w2 = (Inr oi, w3)"
    and e: "QualityAgent_check_categorical_consistency llm df w3 = (ci, w4)"
    and q: "issues_found qr = mi @ di @ oi @ ci"
    by (auto simp: QualityAgent_analyze_def Let_def split: prod.splits sum.splits)
  have 1: "list_all P mi"
    using a unfolding QualityAgent_check_missing_values_def
    by (rule for_each_try_all[where f = "check_missing_column llm df" and P = P, rotated]) (rule m)
  have 2: "list_all P di" using d[of w1] b by simp
  have 3: "list_all P oi"
    using c unfolding QualityAgent_check_outliers_def
    by (rule for_each_try_all[where f = "check_outliers_column llm df" and P = P, rotated]) (rule o)
  have "list_all P (concat (fst (for_each (check_consistency_column llm)
          (filter (\<lambda>c. is_object (snd c)) (df_columns df)) w3)))"
    by (rule for_each_all) (rule k)
  with e have 4: "list_all P ci"
    by (simp add: QualityAgent_check_categorical_consistency_def split: prod.splits)
  from 1 2 3 4 q show ?thesis by simp
qed

lemma quality_analyze_fallback:
  assumes "wf_df df"
  shows "\<exists>qr w'. QualityAgent_analyze (\<lambda>i req. Inl (err i req)) df w = (Inr qr, w')
           \<and> list_all fallback_issue (issues_found qr)"
proof -
  let ?llm = "\<lambda>i req. Inl (err i req)"
  from quality_analyze_result[OF assms, of ?llm w] obtain qr w' where
    q: "QualityAgent_analyze ?llm df w = (Inr qr, w')" by blast
  have "list_all fallback_issue (issues_found qr)"
  proof (rule quality_issues_all[OF q])
    fix c w rs w' assume "check_missing_column ?llm df c w = (Inr rs, w')"
    then show "list_all fallback_issue rs"
      by (auto simp: check_missing_column_def predict_def Let_def fallback_issue_def
          split: if_splits sum.splits)
  next
    fix w show "list_all fallback_issue (fst (QualityAgent_check_duplicates ?llm df w))"
      by (simp add: QualityAgent_check_duplicates_def predict_def Let_def fallback_issue_def)
  next
    fix c w rs w' assume "check_outliers_column ?llm df c w = (Inr rs, w')"
    then show "list_all fallback_issue rs"
      by (auto simp: check_outliers_column_def predict_def Let_def fallback_issue_def
          split: if_splits sum.splits)
  next
    fix c w show "list_all fallback_issue (fst (check_consistency_column ?llm c w))"
      by (simp add: check_consistency_column_def predict_def Let_def fallback_issue_def)
  qed
  with q show ?thesis by blast
qed

text \<open>
  Claim C2, as it is stated, fails: with a collaborator that fails on every call, the
  run on a frame of one row ends with status \<open>completed\<close> and no error string, after
  eight failed calls.
\<close>

theorem generation_failure_not_partial:
  "wf_df df_one_row
   \<and> status (fst (analyze_dataset (SupervisorAgent_init lib_nan always_fail) df_one_row []))
       = ''completed''
   \<and> status (fst (analyze_dataset (SupervisorAgent_init lib_nan always_fail) df_one_row []))
       \<noteq> ''partial_failure''
   \<and> errors (fst (analyze_dataset (SupervisorAgent_init lib_nan always_fail) df_one_row [])) = []
   \<and> length (snd (analyze_dataset (SupervisorAgent_init lib_nan always_fail) df_one_row [])) = 8"
  by code_simp

text \<open>
  Claim C2, amended. When the collaborator fails on every call, and the data frame has at
  least one row and columns of distinct names that hold integers, floats or strings, every
  stage of \<open>analyze_dataset\<close> returns its record of fallback values: every column profile,
  every record of numeric or categorical statistics and every quality issue carries the
  fallback strings of its \<open>except\<close> branch, the ML advisor, the deployment agent and the
  communication agent return their error records, all six agents are listed as completed,
  no error string is appended and the status is \<open>completed\<close>.
\<close>

theorem generation_failure_completes:
  assumes "wf_df df" and "0 < df_len df" and "distinct (map fst (df_columns df))"
    and "\<And>i req. isl (llm i req)"
  shows "\<exists>r w' sr pr qr ml e1 e2 e3 e4.
           analyze_dataset (SupervisorAgent_init lib llm) df w = (r, w')
         \<and> schema_analysis r = Some sr
         \<and> list_all2 schema_fallback (df_columns df) (sr_columns sr)
         \<and> profile_analysis r = Some pr
         \<and> list_all2 numeric_fallback (filter (\<lambda>c. is_number (snd c)) (df_columns df))
              (numeric_analysis pr)
         \<and> list_all2 categorical_fallback (filter (\<lambda>c. is_object (snd c)) (df_columns df))
              (categorical_analysis pr)
         \<and> quality_analysis r = Some qr
         \<and> list_all fallback_issue (issues_found qr)
         \<and> ml_recommendations r = Some ml
         \<and> ml_use_case ml
             = \<lparr>detected_use_case = ''Unable to detect'', target_variable = ''Unknown'',
                target_reasoning = ''Error: '' @ str_exn e1, suitability_score = ''0'',
                alternative_use_case = ''N/A''\<rparr>
         \<and> feature_engineering ml
             = \<lparr>feature_plan = ''Error generating plan: '' @ str_exn e2,
                training_recommendations = ''Unable to generate recommendations'',
                mlflow_setup = ''Unable to generate MLflow recommendations''\<rparr>
         \<and> deployment_strategy r = Some (DeploymentAgent_generate_error_response (str_exn e3))
         \<and> business_communication r
             = Some (BusinessCommunicationAgent_generate_error_response (str_exn e4))
         \<and> agents_completed r
             = [''schema_agent'', ''profile_agent'', ''quality_agent'', ''ml_advisor_agent'',
                ''deployment_agent'', ''business_communication_agent'']
         \<and> errors r = [] \<and> status r = ''completed''"
proof -
  from assms(4) obtain err where llm: "llm = (\<lambda>i req. Inl (err i req))"
    by (rule all_fail_fun)
  from schema_analyze_fallback[OF assms(2), of err w] obtain sr w1 where
    s: "SchemaAgent_analyze llm df w = (Inr sr, w1)"
    and sf: "list_all2 schema_fallback (df_columns df) (sr_columns sr)"
    unfolding llm by blast
  from profile_analyze_fallback[of lib err df w1] obtain pr w2 where
    p: "ProfileAgent_analyze lib llm df w1 = (Inr pr, w2)"
    and pf: "list_all2 numeric_fallback (filter (\<lambda>c. is_number (snd c)) (df_columns df))
               (numeric_analysis pr)"
      "list_all2 categorical_fallback (filter (\<lambda>c. is_object (snd c)) (df_columns df))
               (categorical_analysis pr)"
    unfolding llm by blast
  from quality_analyze_fallback[OF assms(1), of err w2] obtain qr w3 where
    q: "QualityAgent_analyze llm df w2 = (Inr qr, w3)"
    and qf: "list_all fallback_issue (issues_found qr)"
    unfolding llm by blast
  obtain ml w4 where m: "MLAdvisorAgent_analyze llm sr pr qr w3 = (Inr ml, w4)"
    using ml_analyze_ok by blast
  obtain e1 e2 where mf:
    "ml_use_case ml
       = \<lparr>detected_use_case = ''Unable to detect'', target_variable = ''Unknown'',
          target_reasoning = ''Error: '' @ str_exn e1, suitability_score = ''0'',
          alternative_use_case = ''N/A''\<rparr>"
    "feature_engineering ml
       = \<lparr>feature_plan = ''Error generating plan: '' @ str_exn e2,
          training_recommendations = ''Unable to generate recommendations'',
          mlflow_setup = ''Unable to generate MLflow recommendations''\<rparr>"
    using m unfolding llm
    by (auto simp: MLAdvisorAgent_analyze_def predict_def Let_def)
  obtain e3 w5 where
    d: "DeploymentAgent_analyze llm (Some sr) ml w4
          = (Inr (DeploymentAgent_generate_error_response (str_exn e3)), w5)"
    unfolding llm
    by (auto simp: DeploymentAgent_analyze_def DeploymentAgent_format_data_summary_def
        predict_def Let_def)
  have dne: "DeploymentAgent_generate_error_response (str_exn e3) \<noteq> []"
    by (simp add: DeploymentAgent_generate_error_response_def)
  obtain e4 w6 where
    b: "BusinessCommunicationAgent_analyze llm ml
          (DeploymentAgent_generate_error_response (str_exn e3)) w5
          = (Inr (BusinessCommunicationAgent_generate_error_response (str_exn e4)), w6)"
    unfolding llm
    by (auto simp: BusinessCommunicationAgent_analyze_def predict_def Let_def)
  let ?r = "\<lparr>status = ''completed'',
              agents_completed = [''schema_agent'', ''profile_agent'', ''quality_agent'',
                ''ml_advisor_agent'', ''deployment_agent'', ''business_communication_agent''],
              schema_analysis = Some sr, profile_analysis = Some pr,
              quality_analysis = Some qr, ml_recommendations = Some ml,
              deployment_strategy = Some (DeploymentAgent_generate_error_response (str_exn e3)),
              business_communication
                = Some (BusinessCommunicationAgent_generate_error_response (str_exn e4)),
              errors = []\<rparr>"
  have res: "analyze_dataset (SupervisorAgent_init lib llm) df w
          = (\<lparr>status = ''completed'',
              agents_completed = [''schema_agent'', ''profile_agent'', ''quality_agent'',
                ''ml_advisor_agent'', ''deployment_agent'', ''business_communication_agent''],
              schema_analysis = Some sr, profile_analysis = Some pr,
              quality_analysis = Some qr, ml_recommendations = Some ml,
              deployment_strategy = Some (DeploymentAgent_generate_error_response (str_exn e3)),
              business_communication
                = Some (BusinessCommunicationAgent_generate_error_response (str_exn e4)),
              errors = []\<rparr>, w6)"
    using dne
    by (simp add: analyze_dataset_def SupervisorAgent_init_def step_schema_def step_profile_def
        step_quality_def step_ml_advisor_def step_deployment_def step_business_communication_def
        update_status_def initial_results_def truthy_def truthy_dict_def s p q m d b)
  show ?thesis
    apply (rule exI[of _ ?r], rule exI[of _ w6], rule exI[of _ sr], rule exI[of _ pr])
    apply (rule exI[of _ qr], rule exI[of _ ml], rule exI[of _ e1], rule exI[of _ e2])
    apply (rule exI[of _ e3], rule exI[of _ e4])
    apply (simp add: res mf sf pf qf)
    done
qed

theorem generation_failure_completes_witness:
  "wf_df df_quality_example \<and> 0 < df_len df_quality_example
   \<and> distinct (map fst (df_columns df_quality_example))
   \<and> (\<forall>i req. isl (always_fail i req))
   \<and> (\<exists>r w' sr pr qr.
         analyze_dataset (SupervisorAgent_init lib_nan always_fail) df_quality_example [] = (r, w')
         \<and> schema_analysis r = Some sr
         \<and> list_all2 schema_fallback (df_columns df_quality_example) (sr_columns sr)
         \<and> profile_analysis r = Some pr
         \<and> list_all2 numeric_fallback
              (filter (\<lambda>c. is_number (snd c)) (df_columns df_quality_example))
              (numeric_analysis pr)
         \<and> list_all2 categorical_fallback
              (filter (\<lambda>c. is_object (snd c)) (df_columns df_quality_example))
              (categorical_analysis pr)
         \<and> quality_analysis r = Some qr
         \<and> list_all fallback_issue (issues_found qr)
         \<and> agents_completed r
             = [''schema_agent'', ''profile_agent'', ''quality_agent'', ''ml_advisor_agent'',
                ''deployment_agent'', ''business_communication_agent'']
         \<and> errors r = [] \<and> status r = ''completed'')"
proof -
  have wf: "wf_df df_quality_example" by code_simp
  have pos: "0 < df_len df_quality_example" by (simp add: df_quality_example_def)
  have dist: "distinct (map fst (df_columns df_quality_example))"
    by (simp add: df_quality_example_def)
  have fails: "\<And>i req. isl (always_fail i req)" by (simp add: always_fail_def)
  from generation_failure_completes[where df = df_quality_example and llm = always_fail
      and lib = lib_nan and w = "[]", OF wf pos dist fails] wf pos dist fails
  show ?thesis by blast
qed

text \<open>
  Claim C7 at a file with a header line and no rows: the schema agent calls the
  collaborator for the first column and then raises \<open>ZeroDivisionError\<close> while it builds
  the column's dict; the supervisor records the failure of the stage.
\<close>

theorem schema_agent_header_only:
  "wf_df df_header_only
   \<and> fst (SchemaAgent_analyze always_fail df_header_only []) = Inl ZeroDivisionError
   \<and> errors (fst (analyze_dataset (SupervisorAgent_init lib_nan always_fail) df_header_only []))
       = [''Schema Agent failed: division by zero'']"
  by code_simp

section \<open>Rounding to a float\<close>

lemma rhe_error: "\<bar>of_int (rhe y) - y\<bar> \<le> 1 / 2"
proof -
  have "of_int \<lfloor>y\<rfloor> \<le> y" "y < of_int \<lfloor>y\<rfloor> + 1" by linarith+
  then show ?thesis
    by (auto simp: rhe_def Let_def abs_le_iff)
qed

lemma rhe_le_int:
  assumes "y \<le> of_int N"
  shows "rhe y \<le> N"
proof -
  have fl: "\<lfloor>y\<rfloor> \<le> N" using assms by (simp add: floor_le_iff)
  show ?thesis
  proof (cases "\<lfloor>y\<rfloor> = N")
    case True
    with assms have "y - of_int \<lfloor>y\<rfloor> \<le> 0" by simp
    then have "y - of_int \<lfloor>y\<rfloor> < 1 / 2" by linarith
    then show ?thesis using True by (simp add: rhe_def Let_def)
  next
    case False
    with fl have "\<lfloor>y\<rfloor> + 1 \<le> N" by simp
    with fl show ?thesis by (auto simp: rhe_def Let_def)
  qed
qed

lemma rhe_nonneg: "0 \<le> y \<Longrightarrow> 0 \<le> rhe y"
  by (auto simp: rhe_def Let_def)

lemma bitlen_le: "n < 2 ^ k \<Longrightarrow> bitlen n \<le> k"
proof (induction n arbitrary: k rule: bitlen.induct)
  case (1 n)
  show ?case
  proof (cases "n = 0")
    case True
    then show ?thesis by (simp add: bitlen.simps)
  next
    case False
    with "1.prems" obtain j where k: "k = Suc j" by (cases k) auto
    with "1.prems" have "n div 2 < 2 ^ j" by auto
    from "1.IH"[OF False this] False k show ?thesis
      by (subst bitlen.simps) simp
  qed
qed

lemma ilog2_le:
  assumes "0 < x" "x \<le> of_nat c" "c < 2 ^ k" "1 \<le> k"
  shows "ilog2 x \<le> int k - 1"
proof (cases "1 \<le> x")
  case False
  then show ?thesis using assms(4) by (simp add: ilog2_def)
next
  case True
  have "\<lfloor>x\<rfloor> \<le> int c" using assms(2) by (simp add: floor_le_iff)
  then have "nat \<lfloor>x\<rfloor> \<le> c" by simp
  from this assms(3) have "nat \<lfloor>x\<rfloor> < 2 ^ k" by (rule le_less_trans)
  from bitlen_le[OF this] True show ?thesis by (simp add: ilog2_def)
qed

lemma pow2_pos: "0 < pow2 e"
  by (simp add: pow2_def)

lemma pow2_nonpos: "e \<le> 0 \<Longrightarrow> pow2 e = 1 / 2 ^ nat (- e)"
  by (auto simp: pow2_def)

lemma pow2_mono: "a \<le> b \<Longrightarrow> b \<le> 0 \<Longrightarrow> pow2 a \<le> pow2 b"
  by (simp add: pow2_nonpos frac_le)

lemma fl_pos_eq:
  "0 < x \<Longrightarrow> fl x = of_int (rhe (x / pow2 (ilog2 x - 52))) * pow2 (ilog2 x - 52)"
  by (simp add: fl_def Let_def)

lemma fl_nonneg:
  assumes "0 \<le> x"
  shows "0 \<le> fl x"
proof (cases "x = 0")
  case True
  then show ?thesis by (simp add: fl_def)
next
  case False
  with assms have pos: "0 < x" by simp
  have "0 \<le> x / pow2 (ilog2 x - 52)"
    using pos pow2_pos[of "ilog2 x - 52"] by simp
  then have "0 \<le> rhe (x / pow2 (ilog2 x - 52))" by (rule rhe_nonneg)
  then show ?thesis
    using pow2_pos[of "ilog2 x - 52"] by (simp add: fl_pos_eq[OF pos])
qed

lemma fl_le_nat:
  assumes "0 \<le> x" "x \<le> of_nat c" "c < 2 ^ 53"
  shows "fl x \<le> of_nat c"
proof (cases "x = 0")
  case True
  then show ?thesis by (simp add: fl_def)
next
  case False
  with assms(1) have pos: "0 < x" by simp
  let ?e = "ilog2 x - 52"
  from ilog2_le[OF pos assms(2,3)] have e: "?e \<le> 0" by simp
  then have p: "pow2 ?e = 1 / 2 ^ nat (- ?e)" by (rule pow2_nonpos)
  have "x / pow2 ?e \<le> of_nat c / pow2 ?e"
    using assms(2) pow2_pos[of ?e] by (simp add: divide_right_mono)
  also have "of_nat c / pow2 ?e = of_int (int c * 2 ^ nat (- ?e))"
    by (simp add: p)
  finally have "rhe (x / pow2 ?e) \<le> int c * 2 ^ nat (- ?e)" by (rule rhe_le_int)
  then have "(of_int (rhe (x / pow2 ?e)) :: rat) \<le> of_int (int c * 2 ^ nat (- ?e))"
    by (simp only: of_int_le_iff)
  then have "of_int (rhe (x / pow2 ?e)) * pow2 ?e \<le> of_int (int c * 2 ^ nat (- ?e)) * pow2 ?e"
    using pow2_pos[of ?e] by (simp add: mult_right_mono)
  also have "\<dots> = of_nat c" by (simp add: p)
  finally show ?thesis by (simp add: fl_pos_eq[OF pos])
qed

lemma fl_error:
  assumes "0 \<le> x" "x \<le> of_nat c" "c < 2 ^ k" "1 \<le> k" "k \<le> 53"
  shows "\<bar>fl x - x\<bar> \<le> pow2 (int k - 53) / 2"
proof (cases "x = 0")
  case True
  then show ?thesis using pow2_pos[of "int k - 53"] by (simp add: fl_def)
next
  case False
  with assms(1) have pos: "0 < x" by simp
  let ?e = "ilog2 x - 52"
  from ilog2_le[OF pos assms(2,3,4)] have e: "?e \<le> int k - 53" by simp
  have pe: "pow2 ?e \<le> pow2 (int k - 53)" using e assms(5) by (intro pow2_mono) simp_all
  have "fl x - x = (of_int (rhe (x / pow2 ?e)) - x / pow2 ?e) * pow2 ?e"
    using pow2_pos[of ?e] by (simp add: fl_pos_eq[OF pos] algebra_simps)
  then have "\<bar>fl x - x\<bar> = \<bar>of_int (rhe (x / pow2 ?e)) - x / pow2 ?e\<bar> * pow2 ?e"
    using pow2_pos[of ?e] by (simp add: abs_mult)
  also have "\<dots> \<le> (1 / 2) * pow2 ?e"
    using rhe_error[of "x / pow2 ?e"] pow2_pos[of ?e] by (intro mult_right_mono) simp_all
  also have "\<dots> \<le> (1 / 2) * pow2 (int k - 53)" using pe by simp
  finally show ?thesis by simp
qed

lemma null_percentage_arith:
  assumes "n \<le> t" "0 < t"
  shows "0 \<le> py_round2 (py_mul (fl (of_nat n / of_nat t)) 100)
       \<and> py_round2 (py_mul (fl (of_nat n / of_nat t)) 100) \<le> 100
       \<and> (\<exists>k j. py_round2 (py_mul (fl (of_nat n / of_nat t)) 100) = fl (of_int k / 100)
                \<and> spec_null_percentage n t = fl (of_int j / 100) \<and> \<bar>k - j\<bar> \<le> 1)"
proof -
  define x :: rat where "x = of_nat n / of_nat t"
  define a where "a = fl x"
  define b where "b = fl (a * 100)"
  define s where "s = fl (100 * x)"
  define k where "k = rhe (b * 100)"
  define j where "j = rhe (s * 100)"
  define e1 :: rat where "e1 = pow2 (int 1 - 53) / 2"
  define e2 :: rat where "e2 = pow2 (int 7 - 53) / 2"
  have small: "e1 \<le> 1 / 1000000" "e2 \<le> 1 / 1000000"
    by (simp_all add: e1_def e2_def pow2_def)
  have x: "0 \<le> x" "x \<le> of_nat 1" using assms by (simp_all add: x_def)
  have a: "0 \<le> a" "a \<le> 1"
    using fl_nonneg[OF x(1)] fl_le_nat[OF x] by (simp_all add: a_def)
  have ae: "\<bar>a - x\<bar> \<le> e1"
    unfolding a_def e1_def by (rule fl_error[OF x]) simp_all
  have a100: "0 \<le> a * 100" "a * 100 \<le> of_nat 100" using a by simp_all
  have b: "0 \<le> b" "b \<le> 100"
    using fl_nonneg[OF a100(1)] fl_le_nat[OF a100] by (simp_all add: b_def)
  have be: "\<bar>b - a * 100\<bar> \<le> e2"
    unfolding b_def e2_def by (rule fl_error[OF a100]) simp_all
  have x100: "0 \<le> 100 * x" "100 * x \<le> of_nat 100" using x by simp_all
  have se: "\<bar>s - 100 * x\<bar> \<le> e2"
    unfolding s_def e2_def by (rule fl_error[OF x100]) simp_all
  have k: "0 \<le> k" "k \<le> 10000"
    using rhe_nonneg[of "b * 100"] rhe_le_int[of "b * 100" 10000] b by (simp_all add: k_def)
  have k100: "0 \<le> (of_int k / 100 :: rat)" "(of_int k / 100 :: rat) \<le> of_nat 100"
    using k by simp_all
  have np: "py_round2 (py_mul (fl (of_nat n / of_nat t)) 100) = fl (of_int k / 100)"
    by (simp add: py_round2_def py_mul_def k_def b_def a_def x_def)
  have sp: "spec_null_percentage n t = fl (of_int j / 100)"
    by (simp add: spec_null_percentage_def py_round2_def j_def s_def x_def)
  note bounds = abs_le_D1[OF ae] abs_le_D2[OF ae] abs_le_D1[OF be] abs_le_D2[OF be]
    abs_le_D1[OF se] abs_le_D2[OF se]
  have "b * 100 - s * 100 < 1 / 2" "- (1 / 2) < b * 100 - s * 100"
    using bounds small by linarith+
  then have close: "\<bar>b * 100 - s * 100\<bar> < 1 / 2" by linarith
  have "\<bar>(of_int k :: rat) - of_int j\<bar> < 2"
    using rhe_error[of "b * 100"] rhe_error[of "s * 100"] close
    unfolding k_def j_def by linarith
  then have "\<bar>(of_int (k - j) :: rat)\<bar> < of_int 2" by simp
  then have "\<bar>k - j\<bar> < 2" by (simp only: of_int_abs[symmetric] of_int_less_iff)
  then have kj: "\<bar>k - j\<bar> \<le> 1" by simp
  from fl_nonneg[OF k100(1)] fl_le_nat[OF k100] np sp kj show ?thesis
    by auto
qed

section \<open>The percentage of missing values\<close>

lemma schema_column_null_percentage:
  assumes "0 < df_len df" "series_len (snd c) = df_len df"
  shows "\<exists>cp w'. SchemaAgent_analyze_column llm df c w = (Inr cp, w')
           \<and> null_percentage_ok df c cp"
proof -
  from schema_column_ok[OF assms(1), of llm c w] obtain cp w1 where
    c: "SchemaAgent_analyze_column llm df c w = (Inr cp, w1)"
      "cp_null_count cp = isnull_sum (snd c)"
      "cp_null_percentage cp
         = py_round2 (py_mul (fl (of_nat (isnull_sum (snd c)) / of_nat (df_len df))) 100)"
    by blast
  have "isnull_sum (snd c) \<le> df_len df"
    using isnull_sum_le[of "snd c"] assms(2) by simp
  from null_percentage_arith[OF this assms(1)]
  have "null_percentage_ok df c cp"
    unfolding null_percentage_ok_def c(2) c(3) by simp
  with c(1) show ?thesis by blast
qed

lemma schema_columns_all2:
  assumes "0 < df_len df"
    and "\<And>c. c \<in> set cs \<Longrightarrow> series_len (snd c) = df_len df"
  shows "\<exists>cps w'. SchemaAgent_columns llm df cs acc w = (Inr (acc @ cps), w')
           \<and> list_all2 (null_percentage_ok df) cs cps"
  using assms(2)
proof (induction cs arbitrary: acc w)
  case Nil
  show ?case by simp
next
  case (Cons c cs)
  from schema_column_null_percentage[OF assms(1), of c llm w] Cons.prems obtain cp w1 where
    c: "SchemaAgent_analyze_column llm df c w = (Inr cp, w1)" "null_percentage_ok df c cp"
    by auto
  from Cons.IH[of "acc @ [cp]" w1] Cons.prems obtain cps w2 where
    r: "SchemaAgent_columns llm df cs (acc @ [cp]) w1 = (Inr ((acc @ [cp]) @ cps), w2)"
      "list_all2 (null_percentage_ok df) cs cps"
    by auto
  have "SchemaAgent_columns llm df (c # cs) acc w = (Inr (acc @ cp # cps), w2)"
    using c(1) r(1) by simp
  moreover have "list_all2 (null_percentage_ok df) (c # cs) (cp # cps)"
    using c(2) r(2) by simp
  ultimately show ?case by blast
qed

text \<open>
  Claim C5, as it is stated, fails. For a column with 23 missing values in 160 rows the
  schema agent stores the float nearest to 14.37: the quotient 23/160 is rounded to a float
  before it is multiplied by 100, and the product falls below 14.375. The formula
  \<open>round(100 * null_count / total_rows, 2)\<close> gives the float nearest to 14.38, in
  floating point and in exact arithmetic alike.
\<close>

theorem null_percentage_23_of_160:
  "wf_df df_23_of_160 \<and> 0 < df_len df_23_of_160
   \<and> \<not> isl (fst (SchemaAgent_analyze always_fail df_23_of_160 []))
   \<and> map cp_null_count (sr_columns (projr (fst (SchemaAgent_analyze always_fail df_23_of_160 []))))
       = [23]
   \<and> map cp_null_percentage
         (sr_columns (projr (fst (SchemaAgent_analyze always_fail df_23_of_160 []))))
       = [fl (1437 / 100)]
   \<and> spec_null_percentage 23 160 = fl (1438 / 100)
   \<and> of_int (rhe (100 * 23 / 160 * 100)) / 100 = (1438 / 100 :: rat)
   \<and> fl (1437 / 100) \<noteq> fl (1438 / 100)"
  by code_simp

text \<open>
  Claim C5, amended. For every column of every data frame with at least one row,
  \<open>null_percentage\<close> is \<open>round((null_count / total_rows) * 100, 2)\<close> with the
  quotient and the product each rounded to a float, it lies between 0 and 100, and it
  is within one hundredth of \<open>round(100 * null_count / total_rows, 2)\<close>.
\<close>

theorem null_percentage_rounded:
  assumes "wf_df df" and "0 < df_len df"
  shows "\<exists>sr w'. SchemaAgent_analyze llm df w = (Inr sr, w')
           \<and> list_all2 (null_percentage_ok df) (df_columns df) (sr_columns sr)"
proof -
  have "\<And>c. c \<in> set (df_columns df) \<Longrightarrow> series_len (snd c) = df_len df"
    using assms(1) by (simp add: wf_df_def list_all_iff)
  from schema_columns_all2[OF assms(2) this, of "df_columns df" llm "[]" w]
  obtain cps w' where
    r: "SchemaAgent_columns llm df (df_columns df) [] w = (Inr cps, w')"
      "list_all2 (null_percentage_ok df) (df_columns df) cps"
    by auto
  then show ?thesis by (simp add: SchemaAgent_analyze_def)
qed

theorem null_percentage_rounded_witness:
  "wf_df df_23_of_160 \<and> 0 < df_len df_23_of_160
   \<and> (\<exists>sr w'. SchemaAgent_analyze always_fail df_23_of_160 [] = (Inr sr, w')
         \<and> map cp_null_percentage (sr_columns sr) = [fl (1437 / 100)]
         \<and> list_all2 (null_percentage_ok df_23_of_160) (df_columns df_23_of_160)
              (sr_columns sr))"
proof -
  have wf: "wf_df df_23_of_160" by code_simp
  have pos: "0 < df_len df_23_of_160" by (simp add: df_23_of_160_def)
  from null_percentage_rounded[OF wf pos, of always_fail "[]"] obtain sr w' where
    r: "SchemaAgent_analyze always_fail df_23_of_160 [] = (Inr sr, w')"
    and l: "list_all2 (null_percentage_ok df_23_of_160) (df_columns df_23_of_160)
              (sr_columns sr)"
    by blast
  have "map cp_null_percentage
          (sr_columns (projr (fst (SchemaAgent_analyze always_fail df_23_of_160 []))))
        = [fl (1437 / 100)]"
    by code_simp
  with r have v: "map cp_null_percentage (sr_columns sr) = [fl (1437 / 100)]" by simp
  show ?thesis
    apply (intro conjI)
      apply (rule wf)
     apply (rule pos)
    apply (rule exI[of _ sr], rule exI[of _ w'])
    apply (simp add: r v l)
    done
qed

section \<open>Order statistics\<close>








end
